theory Spec2Isabelle
  imports Complex_Main "HOL-Library.Monad_Syntax" "HOL-Library.Multiset"
begin

section \<open>Numbers\<close>

text \<open>
  The program computes with JavaScript numbers. They are modelled as mathematical reals:
  every theorem below is about the exact-arithmetic reading of the code, and rounding and
  overflow of IEEE doubles are not part of the model. The one way a non-finite number
  (\<open>Infinity\<close> or \<open>NaN\<close>) can then arise is a division by zero or a square root of a
  negative number, and both are written into the model: an operation whose JavaScript
  result would be non-finite returns \<open>None\<close>. In the functions below a non-finite
  intermediate value always reaches the returned value, so \<open>None\<close> for the whole
  function reads "the result holds a non-finite number".

  Divisions by a non-zero literal constant (86400000, 36525, 180, ...) are written with
  the plain \<open>/\<close>.
\<close>

definition jsdiv :: "real \<Rightarrow> real \<Rightarrow> real option" where
  "jsdiv p q = (if q = 0 then None else Some (p / q))"

definition js_sqrt :: "real \<Rightarrow> real option" where
  "js_sqrt v = (if v < 0 then None else Some (sqrt v))"

text \<open>
  Two things that a double does and a real does not are written out where a property
  depends on them, in definitions of their own beside the exact-arithmetic ones: the
  constant \<open>Math.PI\<close> is a double, not \<open>\<pi>\<close> (the definitions named \<open>_double\<close>), and the
  doubles have a largest finite value (the definitions named \<open>_ranged\<close>).

  \<open>Math.PI\<close> is the double nearest to \<open>\<pi>\<close>, the fraction below (3.141592653589793, about
  1.2e-16 less than \<open>\<pi>\<close>). A product of a double and a power of two is exact, so
  \<open>2 * Math.PI\<close> is the double that is twice this number.
\<close>

definition Math_PI :: real where
  "Math_PI = 884279719003555 / 2 ^ 48"

text \<open>
  A number with the range of a double: a finite value, \<open>Infinity\<close>, \<open>-Infinity\<close> or
  \<open>NaN\<close>. \<open>js_val v\<close> is what an operation returns whose exact result is the real \<open>v\<close>:
  every double is less than \<open>2 ^ 1024\<close> in magnitude, and a result beyond the range is an
  infinity. The result is still not rounded, and zero has no sign (it is read as \<open>+0\<close>).
  On the other values the operations are those of IEEE 754 arithmetic: an infinity
  times zero, the difference and the quotient of two infinities, and every operation on
  \<open>NaN\<close> is \<open>NaN\<close>; a finite number over an infinity is zero; a comparison with \<open>NaN\<close>
  is false.
\<close>

datatype jsnum = Fin real | PInf | NInf | NaN

definition js_val :: "real \<Rightarrow> jsnum" where
  "js_val v = (if 2 ^ 1024 \<le> v then PInf else if v \<le> - (2 ^ 1024) then NInf else Fin v)"

definition js_inf :: "bool \<Rightarrow> jsnum" where
  "js_inf positive = (if positive then PInf else NInf)"

fun js_neg :: "jsnum \<Rightarrow> jsnum" where
  "js_neg (Fin v) = Fin (- v)"
| "js_neg PInf = NInf"
| "js_neg NInf = PInf"
| "js_neg NaN = NaN"

fun js_plus :: "jsnum \<Rightarrow> jsnum \<Rightarrow> jsnum" where
  "js_plus (Fin v) (Fin w) = js_val (v + w)"
| "js_plus (Fin v) PInf = PInf"
| "js_plus (Fin v) NInf = NInf"
| "js_plus PInf (Fin w) = PInf"
| "js_plus PInf PInf = PInf"
| "js_plus PInf NInf = NaN"
| "js_plus NInf (Fin w) = NInf"
| "js_plus NInf PInf = NaN"
| "js_plus NInf NInf = NInf"
| "js_plus NaN b = NaN"
| "js_plus a NaN = NaN"

definition js_minus :: "jsnum \<Rightarrow> jsnum \<Rightarrow> jsnum" where
  "js_minus a b = js_plus a (js_neg b)"

fun js_times :: "jsnum \<Rightarrow> jsnum \<Rightarrow> jsnum" where
  "js_times (Fin v) (Fin w) = js_val (v * w)"
| "js_times (Fin v) PInf = (if v = 0 then NaN else js_inf (0 < v))"
| "js_times (Fin v) NInf = (if v = 0 then NaN else js_inf (v < 0))"
| "js_times PInf (Fin w) = (if w = 0 then NaN else js_inf (0 < w))"
| "js_times NInf (Fin w) = (if w = 0 then NaN else js_inf (w < 0))"
| "js_times PInf PInf = PInf"
| "js_times PInf NInf = NInf"
| "js_times NInf PInf = NInf"
| "js_times NInf NInf = PInf"
| "js_times NaN b = NaN"
| "js_times a NaN = NaN"

fun js_over :: "jsnum \<Rightarrow> jsnum \<Rightarrow> jsnum" where
  "js_over (Fin v) (Fin w) =
     (if w = 0 then (if v = 0 then NaN else js_inf (0 < v)) else js_val (v / w))"
| "js_over (Fin v) PInf = Fin 0"
| "js_over (Fin v) NInf = Fin 0"
| "js_over PInf (Fin w) = js_inf (0 \<le> w)"
| "js_over NInf (Fin w) = js_inf (w < 0)"
| "js_over PInf PInf = NaN"
| "js_over PInf NInf = NaN"
| "js_over NInf PInf = NaN"
| "js_over NInf NInf = NaN"
| "js_over NaN b = NaN"
| "js_over a NaN = NaN"

fun js_root :: "jsnum \<Rightarrow> jsnum" where
  "js_root (Fin v) = (if v < 0 then NaN else Fin (sqrt v))"
| "js_root PInf = PInf"
| "js_root NInf = NaN"
| "js_root NaN = NaN"

fun js_less :: "jsnum \<Rightarrow> jsnum \<Rightarrow> bool" where
  "js_less (Fin v) (Fin w) = (v < w)"
| "js_less (Fin v) PInf = True"
| "js_less NInf (Fin w) = True"
| "js_less NInf PInf = True"
| "js_less a b = False"

text \<open>
  The remainder operator \<open>%\<close> of the language, for a non-zero divisor: the quotient is
  truncated towards zero, so the result has the sign of the dividend.
\<close>

definition js_trunc :: "real \<Rightarrow> int" where
  "js_trunc v = (if 0 \<le> v then \<lfloor>v\<rfloor> else \<lceil>v\<rceil>)"

definition js_rem :: "real \<Rightarrow> real \<Rightarrow> real" where
  "js_rem p q = p - q * of_int (js_trunc (p / q))"

text \<open>
  \<open>Array.prototype.sort\<close> with a comparator is a stable sort: an element goes before
  another when the comparator is negative, and elements that compare equal keep their
  order. With a comparator that is a consistent ordering, as a difference of two real
  keys is, every stable sort returns the same list; it is written here as an insertion
  sort.
\<close>

fun js_insert :: "('a \<Rightarrow> 'a \<Rightarrow> real) \<Rightarrow> 'a \<Rightarrow> 'a list \<Rightarrow> 'a list" where
  "js_insert cmp v [] = [v]"
| "js_insert cmp v (w # ws) = (if cmp v w \<le> 0 then v # w # ws else w # js_insert cmp v ws)"

definition js_sort :: "('a \<Rightarrow> 'a \<Rightarrow> real) \<Rightarrow> 'a list \<Rightarrow> 'a list" where
  "js_sort cmp vs = foldr (js_insert cmp) vs []"

section \<open>Data model\<close>

text \<open>A point or vector object \<open>{ x, y, z }\<close>.\<close>

record vec3 =
  vec_x :: real
  vec_y :: real
  vec_z :: real

text \<open>The object \<open>{ ax, ay, az }\<close> returned by \<open>computeGravity\<close>.\<close>

record accel =
  ax :: real
  ay :: real
  az :: real

text \<open>The same object with components that have the range of a double.\<close>

record jsaccel =
  jsax :: jsnum
  jsay :: jsnum
  jsaz :: jsnum

text \<open>planets.js: the Keplerian elements of a planet and their rates per Julian century.\<close>

record elements =
  el_a :: real
  el_aRate :: real
  el_e :: real
  el_eRate :: real
  el_I :: real
  el_IRate :: real
  el_L :: real
  el_LRate :: real
  el_wBar :: real
  el_wBarRate :: real
  el_Omega :: real
  el_OmegaRate :: real

text \<open>
  bodies.js: a body of the simulation, with the static data of planets.js the physics
  reads (\<open>body.data.name\<close>, \<open>body.data.GM_AU3_day2\<close>) and its position.
\<close>

record body_data =
  body_name :: string
  GM_AU3_day2 :: real

record body =
  data :: body_data
  body_positionAU :: vec3

definition AU_KM :: real where
  "AU_KM = 149600000"

definition AU_TO_KM :: real where
  "AU_TO_KM = AU_KM"

definition DAY_TO_S :: real where
  "DAY_TO_S = 86400"

definition THRUST_ACCEL :: real where
  "THRUST_ACCEL = 5 / 10000"

definition ROTATION_SPEED :: real where
  "ROTATION_SPEED = 2"

definition SCENE_SCALE :: real where
  "SCENE_SCALE = 50"

text \<open>
  The spacecraft object of \<open>createSpacecraft\<close>. Of the Three.js mesh the record keeps the
  orientation (\<open>mesh.quaternion\<close>, of a type \<open>'q\<close> left to the library) and the scene
  position; of the engine mesh, the opacity of its material. \<open>keys\<close> is the truthiness of
  \<open>spacecraft.keys[code]\<close>.
\<close>

record 'q spacecraft =
  mesh_quaternion :: 'q
  mesh_position :: vec3
  engine_opacity :: real
  positionAU :: vec3
  velocityAU :: vec3
  mass :: real
  thrustAccel :: real
  rotationSpeed :: real
  thrusting :: bool
  keys :: "string \<Rightarrow> bool"

text \<open>
  The operations of Three.js that \<open>updateSpacecraft\<close> calls on the mesh. The library is
  not part of the repository: the functions are parameters of the model.
\<close>

record 'q three =
  rotateX :: "real \<Rightarrow> 'q \<Rightarrow> 'q"
  rotateY :: "real \<Rightarrow> 'q \<Rightarrow> 'q"
  rotateZ :: "real \<Rightarrow> 'q \<Rightarrow> 'q"
  applyQuaternion :: "'q \<Rightarrow> vec3 \<Rightarrow> vec3"

text \<open>An entry of the list \<open>getPerBodyGravity\<close> returns.\<close>

record gravity_entry =
  name :: string
  distanceAU :: real
  distanceKm :: real
  gravityMs2 :: real

section \<open>orbits.js\<close>

definition DEG2RAD :: real where
  "DEG2RAD = pi / 180"

text \<open>A \<open>Date\<close> is its time value \<open>date.getTime()\<close>, in milliseconds.\<close>

definition julianDate :: "int \<Rightarrow> real" where
  "julianDate date = real_of_int date / 86400000 + 24405875 / 10"

definition centuriesSinceJ2000 :: "real \<Rightarrow> real" where
  "centuriesSinceJ2000 jd = (jd - 2451545) / 36525"

text \<open>
  \<open>solveKepler\<close>. \<open>normalizeM\<close> is its first two statements, which bring \<open>M\<close> into
  \<open>[0, 2\<pi>)\<close>. The loop \<open>for (let i = 0; i < 50; i++)\<close> is a recursion on the number
  of iterations left, \<open>50 - i\<close>; \<open>break\<close> returns the current \<open>E\<close>.
\<close>

fun newtonLoop :: "nat \<Rightarrow> real \<Rightarrow> real \<Rightarrow> real \<Rightarrow> real \<Rightarrow> real option" where
  "newtonLoop 0 M e tolerance E = Some E"
| "newtonLoop (Suc n) M e tolerance E =
     do {
       dE \<leftarrow> jsdiv (E - e * sin E - M) (1 - e * cos E);
       let E' = E - dE
       in if \<bar>dE\<bar> < tolerance then Some E' else newtonLoop n M e tolerance E'
     }"

definition normalizeM :: "real \<Rightarrow> real" where
  "normalizeM M = (let M' = js_rem M (2 * pi) in if M' < 0 then M' + 2 * pi else M')"

definition solveKepler :: "real \<Rightarrow> real \<Rightarrow> real \<Rightarrow> real option" where
  "solveKepler M e tolerance =
     (let M' = normalizeM M;
          E = M' + e * sin M'
      in newtonLoop 50 M' e tolerance E)"

text \<open>The default value of the parameter \<open>tolerance\<close>.\<close>

definition default_tolerance :: real where
  "default_tolerance = 1 / 10 ^ 8"

text \<open>
  The rotation of the orbital-plane point \<open>(xPrime, yPrime)\<close> to the ecliptic frame: the
  same lines in \<open>computePosition\<close> and in the loop of \<open>computeOrbitPath\<close>.
\<close>

definition toEcliptic :: "real \<Rightarrow> real \<Rightarrow> real \<Rightarrow> real \<Rightarrow> real \<Rightarrow> vec3" where
  "toEcliptic Omega I omega xPrime yPrime =
     (let cosOmega = cos Omega;
          sinOmega = sin Omega;
          cosI = cos I;
          sinI = sin I;
          cosW = cos omega;
          sinW = sin omega
      in \<lparr>vec_x = (cosOmega * cosW - sinOmega * sinW * cosI) * xPrime +
                  (- cosOmega * sinW - sinOmega * cosW * cosI) * yPrime,
          vec_y = (sinOmega * cosW + cosOmega * sinW * cosI) * xPrime +
                  (- sinOmega * sinW + cosOmega * cosW * cosI) * yPrime,
          vec_z = (sinW * sinI) * xPrime + (cosW * sinI) * yPrime\<rparr>)"

definition computePosition :: "elements \<Rightarrow> int \<Rightarrow> vec3 option" where
  "computePosition elements date =
     (let jd = julianDate date;
          T = centuriesSinceJ2000 jd;
          a = el_a elements + el_aRate elements * T;
          e = el_e elements + el_eRate elements * T;
          I = (el_I elements + el_IRate elements * T) * DEG2RAD;
          L = (el_L elements + el_LRate elements * T) * DEG2RAD;
          wBar = (el_wBar elements + el_wBarRate elements * T) * DEG2RAD;
          Omega = (el_Omega elements + el_OmegaRate elements * T) * DEG2RAD;
          omega = wBar - Omega;
          M = L - wBar
      in do {
        E \<leftarrow> solveKepler M e default_tolerance;
        root \<leftarrow> js_sqrt (1 - e * e);
        let xPrime = a * (cos E - e);
            yPrime = a * root * sin E
        in Some (toEcliptic Omega I omega xPrime yPrime)
      })"

text \<open>
  \<open>computeOrbitPath\<close>. \<open>now\<close> is the time value of \<open>new Date()\<close> at the call. The loop
  \<open>for (let i = 0; i <= segments; i++)\<close> appends one point per round; \<open>segments\<close> is a
  count.
\<close>

function pathLoop ::
  "real \<Rightarrow> real \<Rightarrow> real \<Rightarrow> real \<Rightarrow> real \<Rightarrow> nat \<Rightarrow> nat \<Rightarrow> vec3 list \<Rightarrow> vec3 list option" where
  "pathLoop a e Omega I omega segments i points =
     (if i \<le> segments then
        do {
          E \<leftarrow> jsdiv (2 * pi * real i) (real segments);
          root \<leftarrow> js_sqrt (1 - e * e);
          let xPrime = a * (cos E - e);
              yPrime = a * root * sin E
          in pathLoop a e Omega I omega segments (Suc i)
               (points @ [toEcliptic Omega I omega xPrime yPrime])
        }
      else Some points)"
  by pat_completeness auto
termination
  by (relation "measure (\<lambda>(a, e, Omega, I, omega, segments, i, points). Suc segments - i)") auto

definition computeOrbitPath :: "elements \<Rightarrow> nat \<Rightarrow> int \<Rightarrow> vec3 list option" where
  "computeOrbitPath elements segments now =
     (let jd = julianDate now;
          T = centuriesSinceJ2000 jd;
          a = el_a elements + el_aRate elements * T;
          e = el_e elements + el_eRate elements * T;
          I = (el_I elements + el_IRate elements * T) * DEG2RAD;
          wBar = (el_wBar elements + el_wBarRate elements * T) * DEG2RAD;
          Omega = (el_Omega elements + el_OmegaRate elements * T) * DEG2RAD;
          omega = wBar - Omega
      in pathLoop a e Omega I omega segments 0 [])"

text \<open>The default value of the parameter \<open>segments\<close>.\<close>

definition default_segments :: nat where
  "default_segments = 128"



definition DEG2RAD_double :: real where
  "DEG2RAD_double = Math_PI / 180"

function pathLoop_double ::
  "real \<Rightarrow> real \<Rightarrow> real \<Rightarrow> real \<Rightarrow> real \<Rightarrow> nat \<Rightarrow> nat \<Rightarrow> vec3 list \<Rightarrow> vec3 list option" where
  "pathLoop_double a e Omega I omega segments i points =
     (if i \<le> segments then
        do {
          E \<leftarrow> jsdiv (2 * Math_PI * real i) (real segments);
          root \<leftarrow> js_sqrt (1 - e * e);
          let xPrime = a * (cos E - e);
              yPrime = a * root * sin E
          in pathLoop_double a e Omega I omega segments (Suc i)
               (points @ [toEcliptic Omega I omega xPrime yPrime])
        }
      else Some points)"
  by pat_completeness auto
termination
  by (relation "measure (\<lambda>(a, e, Omega, I, omega, segments, i, points). Suc segments - i)") auto

definition computeOrbitPath_double :: "elements \<Rightarrow> nat \<Rightarrow> int \<Rightarrow> vec3 list option" where
  "computeOrbitPath_double elements segments now =
     (let jd = julianDate now;
          T = centuriesSinceJ2000 jd;
          a = el_a elements + el_aRate elements * T;
          e = el_e elements + el_eRate elements * T;
          I = (el_I elements + el_IRate elements * T) * DEG2RAD_double;
          wBar = (el_wBar elements + el_wBarRate elements * T) * DEG2RAD_double;
          Omega = (el_Omega elements + el_OmegaRate elements * T) * DEG2RAD_double;
          omega = wBar - Omega
      in pathLoop_double a e Omega I omega segments 0 [])"

section \<open>bodies.js\<close>

definition auToScene :: "vec3 \<Rightarrow> vec3" where
  "auToScene pos =
     \<lparr>vec_x = vec_x pos * SCENE_SCALE, vec_y = vec_z pos * SCENE_SCALE,
      vec_z = - vec_y pos * SCENE_SCALE\<rparr>"

section \<open>spacecraft.js\<close>

text \<open>
  \<open>computeGravity\<close>. \<open>gravityBody\<close> is one round of the loop
  \<open>for (const body of bodies)\<close>, from the running sums \<open>ax, ay, az\<close> to the sums after
  the round; \<open>continue\<close> leaves them as they are. \<open>r2\<close> is a sum of squares, so
  \<open>Math.sqrt(r2)\<close> is the real square root.
\<close>

definition gravityBody :: "vec3 \<Rightarrow> body \<Rightarrow> accel \<Rightarrow> accel option" where
  "gravityBody pos b acc =
     (let gm = GM_AU3_day2 (data b);
          dx = vec_x (body_positionAU b) - vec_x pos;
          dy = vec_y (body_positionAU b) - vec_y pos;
          dz = vec_z (body_positionAU b) - vec_z pos;
          r2 = dx * dx + dy * dy + dz * dz;
          r = sqrt r2
      in if r < 1 / 10 ^ 10 then Some acc
         else do {
           aMag \<leftarrow> jsdiv gm r2;
           ux \<leftarrow> jsdiv dx r;
           uy \<leftarrow> jsdiv dy r;
           uz \<leftarrow> jsdiv dz r;
           Some \<lparr>ax = ax acc + aMag * ux, ay = ay acc + aMag * uy, az = az acc + aMag * uz\<rparr>
         })"

fun gravityLoop :: "vec3 \<Rightarrow> body list \<Rightarrow> accel \<Rightarrow> accel option" where
  "gravityLoop pos [] acc = Some acc"
| "gravityLoop pos (b # rest) acc = gravityBody pos b acc \<bind> gravityLoop pos rest"

definition computeGravity :: "'q spacecraft \<Rightarrow> body list \<Rightarrow> accel option" where
  "computeGravity sc bodies = gravityLoop (positionAU sc) bodies \<lparr>ax = 0, ay = 0, az = 0\<rparr>"

text \<open>
  \<open>computeGravity\<close> once more, statement by statement as above, over the numbers with a
  range: the coordinates and the gravitational parameters are finite doubles, and every
  operation of the loop can leave the range.
\<close>

definition gravityBody_ranged :: "vec3 \<Rightarrow> body \<Rightarrow> jsaccel \<Rightarrow> jsaccel" where
  "gravityBody_ranged pos b acc =
     (let gm = Fin (GM_AU3_day2 (data b));
          dx = js_minus (Fin (vec_x (body_positionAU b))) (Fin (vec_x pos));
          dy = js_minus (Fin (vec_y (body_positionAU b))) (Fin (vec_y pos));
          dz = js_minus (Fin (vec_z (body_positionAU b))) (Fin (vec_z pos));
          r2 = js_plus (js_plus (js_times dx dx) (js_times dy dy)) (js_times dz dz);
          r = js_root r2
      in if js_less r (Fin (1 / 10 ^ 10)) then acc
         else
           (let aMag = js_over gm r2
            in \<lparr>jsax = js_plus (jsax acc) (js_times aMag (js_over dx r)),
                jsay = js_plus (jsay acc) (js_times aMag (js_over dy r)),
                jsaz = js_plus (jsaz acc) (js_times aMag (js_over dz r))\<rparr>))"

fun gravityLoop_ranged :: "vec3 \<Rightarrow> body list \<Rightarrow> jsaccel \<Rightarrow> jsaccel" where
  "gravityLoop_ranged pos [] acc = acc"
| "gravityLoop_ranged pos (b # rest) acc =
     gravityLoop_ranged pos rest (gravityBody_ranged pos b acc)"

definition computeGravity_ranged :: "'q spacecraft \<Rightarrow> body list \<Rightarrow> jsaccel" where
  "computeGravity_ranged sc bodies =
     gravityLoop_ranged (positionAU sc) bodies \<lparr>jsax = Fin 0, jsay = Fin 0, jsaz = Fin 0\<rparr>"

text \<open>
  \<open>updateSpacecraft\<close>, block by block. The rotation block leaves the orientation of the
  mesh; the later blocks each take the spacecraft as the block before left it.
\<close>

definition rotateMesh :: "'q three \<Rightarrow> 'q spacecraft \<Rightarrow> real \<Rightarrow> 'q" where
  "rotateMesh three sc dtReal =
     (let rotAmount = rotationSpeed sc * dtReal;
          q = mesh_quaternion sc;
          q = (if keys sc ''KeyA'' then rotateY three rotAmount q else q);
          q = (if keys sc ''KeyD'' then rotateY three (- rotAmount) q else q);
          q = (if keys sc ''Space'' then rotateX three rotAmount q else q);
          q = (if keys sc ''ShiftLeft'' \<or> keys sc ''ShiftRight''
               then rotateX three (- rotAmount) q else q);
          q = (if keys sc ''KeyQ'' then rotateZ three rotAmount q else q);
          q = (if keys sc ''KeyE'' then rotateZ three (- rotAmount) q else q)
      in q)"

definition applyThrust :: "'q three \<Rightarrow> 'q spacecraft \<Rightarrow> real \<Rightarrow> 'q spacecraft" where
  "applyThrust three sc dtSim =
     (let thrustForward = keys sc ''KeyW'';
          thrustBackward = keys sc ''KeyS'';
          sc = sc\<lparr>thrusting := thrustForward \<or> thrustBackward\<rparr>;
          sc = sc\<lparr>engine_opacity := (if thrusting sc then 8 / 10 else 0)\<rparr>
      in if thrustForward \<or> thrustBackward then
           (let forward = applyQuaternion three (mesh_quaternion sc)
                            \<lparr>vec_x = 0, vec_y = 0, vec_z = - 1\<rparr>;
                sign = (if thrustForward then 1 else - 1);
                thrustAU = thrustAccel sc * dtSim * sign
            in sc\<lparr>velocityAU :=
                 \<lparr>vec_x = vec_x (velocityAU sc) + vec_x forward * thrustAU,
                  vec_y = vec_y (velocityAU sc) + (- vec_z forward) * thrustAU,
                  vec_z = vec_z (velocityAU sc) + vec_y forward * thrustAU\<rparr>\<rparr>)
         else sc)"

definition applyGravity :: "'q spacecraft \<Rightarrow> body list \<Rightarrow> real \<Rightarrow> 'q spacecraft option" where
  "applyGravity sc bodies dtSim =
     do {
       grav \<leftarrow> computeGravity sc bodies;
       Some (sc\<lparr>velocityAU :=
         \<lparr>vec_x = vec_x (velocityAU sc) + ax grav * dtSim,
          vec_y = vec_y (velocityAU sc) + ay grav * dtSim,
          vec_z = vec_z (velocityAU sc) + az grav * dtSim\<rparr>\<rparr>)
     }"

definition integratePosition :: "'q spacecraft \<Rightarrow> real \<Rightarrow> 'q spacecraft" where
  "integratePosition sc dtSim =
     (let sc = sc\<lparr>positionAU :=
            \<lparr>vec_x = vec_x (positionAU sc) + vec_x (velocityAU sc) * dtSim,
             vec_y = vec_y (positionAU sc) + vec_y (velocityAU sc) * dtSim,
             vec_z = vec_z (positionAU sc) + vec_z (velocityAU sc) * dtSim\<rparr>\<rparr>
      in sc\<lparr>mesh_position := auToScene (positionAU sc)\<rparr>)"

definition updateSpacecraft ::
  "'q three \<Rightarrow> 'q spacecraft \<Rightarrow> body list \<Rightarrow> real \<Rightarrow> real \<Rightarrow> 'q spacecraft option" where
  "updateSpacecraft three sc bodies dtSim dtReal =
     (let sc = sc\<lparr>mesh_quaternion := rotateMesh three sc dtReal\<rparr>;
          sc = applyThrust three sc dtSim
      in do {
        sc \<leftarrow> applyGravity sc bodies dtSim;
        Some (integratePosition sc dtSim)
      })"

definition getSpeedKmS :: "'q spacecraft \<Rightarrow> real" where
  "getSpeedKmS sc =
     (let v = velocityAU sc;
          speedAU = sqrt (vec_x v * vec_x v + vec_y v * vec_y v + vec_z v * vec_z v)
      in speedAU * AU_TO_KM / DAY_TO_S)"

text \<open>
  \<open>getPerBodyGravity\<close>. \<open>perBodyRound\<close> is one round of the loop, from the array
  \<open>results\<close> to the array after the round: an entry is pushed for a body that passes the
  guard. The array is then sorted by the comparator
  \<open>(a, b) => b.gravityMs2 - a.gravityMs2\<close>.
\<close>

definition perBodyRound :: "vec3 \<Rightarrow> body \<Rightarrow> gravity_entry list \<Rightarrow> gravity_entry list option" where
  "perBodyRound pos b results =
     (let AU_TO_M = AU_TO_KM * 1000;
          gm = GM_AU3_day2 (data b);
          dx = vec_x (body_positionAU b) - vec_x pos;
          dy = vec_y (body_positionAU b) - vec_y pos;
          dz = vec_z (body_positionAU b) - vec_z pos;
          r2 = dx * dx + dy * dy + dz * dz;
          r = sqrt r2
      in if r < 1 / 10 ^ 10 then Some results
         else do {
           accelAU \<leftarrow> jsdiv gm r2;
           let accelMs2 = accelAU * AU_TO_M / (DAY_TO_S * DAY_TO_S)
           in Some (results @ [\<lparr>name = body_name (data b), distanceAU = r,
                                distanceKm = r * AU_TO_KM, gravityMs2 = accelMs2\<rparr>])
         })"

fun perBodyLoop :: "vec3 \<Rightarrow> body list \<Rightarrow> gravity_entry list \<Rightarrow> gravity_entry list option" where
  "perBodyLoop pos [] results = Some results"
| "perBodyLoop pos (b # rest) results = perBodyRound pos b results \<bind> perBodyLoop pos rest"

definition getPerBodyGravity :: "'q spacecraft \<Rightarrow> body list \<Rightarrow> gravity_entry list option" where
  "getPerBodyGravity sc bodies =
     do {
       results \<leftarrow> perBodyLoop (positionAU sc) bodies [];
       Some (js_sort (\<lambda>a b. gravityMs2 b - gravityMs2 a) results)
     }"

section \<open>Calls and the objects of the caller\<close>

text \<open>
  The spacecraft and the bodies are objects, passed by reference: a function that
  receives them can assign to their properties. To state what a call leaves of them, a
  call is a function from the objects as they are before it to its result and the objects
  as they are after it. The two queries below are written statement by statement in that
  form: each round of the loop reads \<open>spacecraft.positionAU\<close> (through the alias \<open>pos\<close>)
  and the body of the round, index \<open>i\<close> of the array, in the objects as the rounds
  before left them.
\<close>

record 'q objects =
  the_spacecraft :: "'q spacecraft"
  the_bodies :: "body list"

fun gravityRounds :: "nat list \<Rightarrow> accel \<Rightarrow> 'q objects \<Rightarrow> accel option \<times> 'q objects" where
  "gravityRounds [] acc s = (Some acc, s)"
| "gravityRounds (i # rounds) acc s =
     (case gravityBody (positionAU (the_spacecraft s)) (the_bodies s ! i) acc of
        None \<Rightarrow> (None, s)
      | Some acc' \<Rightarrow> gravityRounds rounds acc' s)"

definition computeGravity_call :: "'q objects \<Rightarrow> accel option \<times> 'q objects" where
  "computeGravity_call s =
     gravityRounds [0 ..< length (the_bodies s)] \<lparr>ax = 0, ay = 0, az = 0\<rparr> s"

fun perBodyRounds ::
  "nat list \<Rightarrow> gravity_entry list \<Rightarrow> 'q objects \<Rightarrow> gravity_entry list option \<times> 'q objects" where
  "perBodyRounds [] results s = (Some results, s)"
| "perBodyRounds (i # rounds) results s =
     (case perBodyRound (positionAU (the_spacecraft s)) (the_bodies s ! i) results of
        None \<Rightarrow> (None, s)
      | Some results' \<Rightarrow> perBodyRounds rounds results' s)"

definition getPerBodyGravity_call ::
  "'q objects \<Rightarrow> gravity_entry list option \<times> 'q objects" where
  "getPerBodyGravity_call s =
     (case perBodyRounds [0 ..< length (the_bodies s)] [] s of
        (None, s') \<Rightarrow> (None, s')
      | (Some results, s') \<Rightarrow>
          (Some (js_sort (\<lambda>a b. gravityMs2 b - gravityMs2 a) results), s'))"

section \<open>Notions of the specification\<close>

text \<open>
  The Euclidean distance between a position and a body: the \<open>r\<close> of section 4.4 of the
  specification.
\<close>

definition distanceTo :: "vec3 \<Rightarrow> body \<Rightarrow> real" where
  "distanceTo pos b =
     sqrt ((vec_x (body_positionAU b) - vec_x pos)\<^sup>2
         + (vec_y (body_positionAU b) - vec_y pos)\<^sup>2
         + (vec_z (body_positionAU b) - vec_z pos)\<^sup>2)"

text \<open>
  The thrust acceleration of section 4.5, step 1, in the AU frame: of magnitude
  \<open>thrustAccel\<close> along the forward direction of the mesh (as this frame's rotation leaves
  it) when thrust is on, its sign flipped for backward thrust, and zero when thrust is off.
\<close>

definition thrustAcceleration :: "'q three \<Rightarrow> 'q spacecraft \<Rightarrow> real \<Rightarrow> vec3" where
  "thrustAcceleration three sc dtReal =
     (if keys sc ''KeyW'' \<or> keys sc ''KeyS'' then
        (let forward = applyQuaternion three (rotateMesh three sc dtReal)
                         \<lparr>vec_x = 0, vec_y = 0, vec_z = - 1\<rparr>;
             sign = (if keys sc ''KeyW'' then 1 else - 1)
         in \<lparr>vec_x = thrustAccel sc * sign * vec_x forward,
             vec_y = thrustAccel sc * sign * (- vec_z forward),
             vec_z = thrustAccel sc * sign * vec_y forward\<rparr>)
      else \<lparr>vec_x = 0, vec_y = 0, vec_z = 0\<rparr>)"

text \<open>What a body that passes the guard adds to the three sums.\<close>

definition pull :: "vec3 \<Rightarrow> body \<Rightarrow> accel" where
  "pull pos b =
     (let gm = GM_AU3_day2 (data b);
          dx = vec_x (body_positionAU b) - vec_x pos;
          dy = vec_y (body_positionAU b) - vec_y pos;
          dz = vec_z (body_positionAU b) - vec_z pos;
          r2 = dx * dx + dy * dy + dz * dz;
          r = sqrt r2
      in \<lparr>ax = gm / r2 * (dx / r), ay = gm / r2 * (dy / r), az = gm / r2 * (dz / r)\<rparr>)"

text \<open>
  What the companion query of section 4.4 reports for a body: its name, its distance in
  AU and in kilometres, and the magnitude \<open>GM / r\<^sup>2\<close> of its pull, converted from AU per
  day squared to metres per second squared.
\<close>

definition bodyReport :: "vec3 \<Rightarrow> body \<Rightarrow> gravity_entry" where
  "bodyReport pos b =
     \<lparr>name = body_name (data b),
      distanceAU = distanceTo pos b,
      distanceKm = distanceTo pos b * AU_KM,
      gravityMs2 = GM_AU3_day2 (data b) / (distanceTo pos b)\<^sup>2 * (AU_KM * 1000) / (86400 * 86400)\<rparr>"

text \<open>A body passes the guard of the two loops when it is not nearer than 1e-10 AU.\<close>

definition passesGuard :: "vec3 \<Rightarrow> body \<Rightarrow> bool" where
  "passesGuard pos b = (\<not> distanceTo pos b < 1 / 10 ^ 10)"

text \<open>
  The point of the orbit at eccentric anomaly \<open>E\<close>: steps 5 and 6 of section 4.3, for
  an eccentricity with \<open>e\<^sup>2 \<le> 1\<close>.
\<close>

definition orbitPoint :: "real \<Rightarrow> real \<Rightarrow> real \<Rightarrow> real \<Rightarrow> real \<Rightarrow> real \<Rightarrow> vec3" where
  "orbitPoint a e Omega I omega E =
     toEcliptic Omega I omega (a * (cos E - e)) (a * sqrt (1 - e * e) * sin E)"



text \<open>The Euclidean norm of a vector.\<close>

definition norm3 :: "vec3 \<Rightarrow> real" where
  "norm3 v = sqrt ((vec_x v)\<^sup>2 + (vec_y v)\<^sup>2 + (vec_z v)\<^sup>2)"

text \<open>The Euclidean distance between two points.\<close>

definition distance3 :: "vec3 \<Rightarrow> vec3 \<Rightarrow> real" where
  "distance3 p q =
     sqrt ((vec_x p - vec_x q)\<^sup>2 + (vec_y p - vec_y q)\<^sup>2 + (vec_z p - vec_z q)\<^sup>2)"

section \<open>Concrete objects\<close>

text \<open>Small inputs on which the theorems below are instantiated.\<close>

definition restCraft :: "unit spacecraft" where
  "restCraft =
     \<lparr>mesh_quaternion = (), mesh_position = \<lparr>vec_x = 0, vec_y = 0, vec_z = 0\<rparr>,
      engine_opacity = 0, positionAU = \<lparr>vec_x = 0, vec_y = 0, vec_z = 0\<rparr>,
      velocityAU = \<lparr>vec_x = 0, vec_y = 0, vec_z = 0\<rparr>, mass = 1000,
      thrustAccel = THRUST_ACCEL, rotationSpeed = ROTATION_SPEED, thrusting = False,
      keys = (\<lambda>code. False)\<rparr>"

definition sunBody :: body where
  "sunBody = \<lparr>data = \<lparr>body_name = ''Sun'', GM_AU3_day2 = 29591 / 10 ^ 8\<rparr>,
              body_positionAU = \<lparr>vec_x = 0, vec_y = 0, vec_z = 0\<rparr>\<rparr>"

definition unitBody :: body where
  "unitBody = \<lparr>data = \<lparr>body_name = ''Unit'', GM_AU3_day2 = 1\<rparr>,
               body_positionAU = \<lparr>vec_x = 2, vec_y = 0, vec_z = 0\<rparr>\<rparr>"

definition twinBody :: body where
  "twinBody = \<lparr>data = \<lparr>body_name = ''Twin'', GM_AU3_day2 = 1\<rparr>,
               body_positionAU = \<lparr>vec_x = 0, vec_y = 2, vec_z = 0\<rparr>\<rparr>"

definition nearBody :: body where
  "nearBody = \<lparr>data = \<lparr>body_name = ''Near'', GM_AU3_day2 = 1\<rparr>,
               body_positionAU = \<lparr>vec_x = 1, vec_y = 0, vec_z = 0\<rparr>\<rparr>"




definition circularOrbit :: elements where
  "circularOrbit =
     \<lparr>el_a = 2, el_aRate = 0, el_e = 0, el_eRate = 0, el_I = 0, el_IRate = 0,
      el_L = 0, el_LRate = 0, el_wBar = 0, el_wBarRate = 0, el_Omega = 0, el_OmegaRate = 0\<rparr>"

text \<open>
  A spacecraft and a body far apart on the x axis, at \<open>-2 ^ 1023\<close> and \<open>2 ^ 1023\<close>: both
  coordinates are doubles (about 8.99e307).
\<close>

definition farCraft :: "unit spacecraft" where
  "farCraft = restCraft\<lparr>positionAU := \<lparr>vec_x = - (2 ^ 1023), vec_y = 0, vec_z = 0\<rparr>\<rparr>"

definition farBody :: body where
  "farBody = \<lparr>data = \<lparr>body_name = ''Far'', GM_AU3_day2 = 1\<rparr>,
              body_positionAU = \<lparr>vec_x = 2 ^ 1023, vec_y = 0, vec_z = 0\<rparr>\<rparr>"

text \<open>A body at the place of that spacecraft.\<close>

definition hostBody :: body where
  "hostBody = \<lparr>data = \<lparr>body_name = ''Host'', GM_AU3_day2 = 1\<rparr>,
               body_positionAU = \<lparr>vec_x = - (2 ^ 1023), vec_y = 0, vec_z = 0\<rparr>\<rparr>"



section \<open>Gravity: the singularity guard\<close>

lemma distanceTo_unfold:
  "sqrt ((vec_x (body_positionAU b) - vec_x pos) * (vec_x (body_positionAU b) - vec_x pos)
       + (vec_y (body_positionAU b) - vec_y pos) * (vec_y (body_positionAU b) - vec_y pos)
       + (vec_z (body_positionAU b) - vec_z pos) * (vec_z (body_positionAU b) - vec_z pos))
   = distanceTo pos b"
  by (simp add: distanceTo_def power2_eq_square)

lemma far_nonzero:
  assumes "\<not> distanceTo pos b < 1 / 10 ^ 10"
  shows "distanceTo pos b \<noteq> 0"
    and "(vec_x (body_positionAU b) - vec_x pos) * (vec_x (body_positionAU b) - vec_x pos)
       + (vec_y (body_positionAU b) - vec_y pos) * (vec_y (body_positionAU b) - vec_y pos)
       + (vec_z (body_positionAU b) - vec_z pos) * (vec_z (body_positionAU b) - vec_z pos) \<noteq> 0"
proof -
  have "(0::real) < 1 / 10 ^ 10" by simp
  with assms show r: "distanceTo pos b \<noteq> 0" by linarith
  show "(vec_x (body_positionAU b) - vec_x pos) * (vec_x (body_positionAU b) - vec_x pos)
       + (vec_y (body_positionAU b) - vec_y pos) * (vec_y (body_positionAU b) - vec_y pos)
       + (vec_z (body_positionAU b) - vec_z pos) * (vec_z (body_positionAU b) - vec_z pos) \<noteq> 0"
  proof
    assume z: "(vec_x (body_positionAU b) - vec_x pos) * (vec_x (body_positionAU b) - vec_x pos)
       + (vec_y (body_positionAU b) - vec_y pos) * (vec_y (body_positionAU b) - vec_y pos)
       + (vec_z (body_positionAU b) - vec_z pos) * (vec_z (body_positionAU b) - vec_z pos) = 0"
    have "distanceTo pos b = 0"
      unfolding distanceTo_unfold [symmetric] z by simp
    with r show False by simp
  qed
qed

lemma gravityBody_near:
  "distanceTo pos b < 1 / 10 ^ 10 \<Longrightarrow> gravityBody pos b acc = Some acc"
  by (simp only: gravityBody_def Let_def distanceTo_unfold if_True)

lemma gravityBody_far:
  assumes "\<not> distanceTo pos b < 1 / 10 ^ 10"
  shows "gravityBody pos b acc =
     Some \<lparr>ax = ax acc + ax (pull pos b), ay = ay acc + ay (pull pos b),
           az = az acc + az (pull pos b)\<rparr>"
  using assms far_nonzero [OF assms]
  by (simp add: gravityBody_def pull_def Let_def distanceTo_unfold jsdiv_def)

lemma gravityLoop_near:
  "distanceTo pos b < 1 / 10 ^ 10 \<Longrightarrow> gravityLoop pos (b # rest) acc = gravityLoop pos rest acc"
  by (simp add: gravityBody_near)

lemma gravityLoop_far:
  assumes "\<not> distanceTo pos b < 1 / 10 ^ 10"
  shows "gravityLoop pos (b # rest) acc =
     gravityLoop pos rest
       \<lparr>ax = ax acc + ax (pull pos b), ay = ay acc + ay (pull pos b),
        az = az acc + az (pull pos b)\<rparr>"
  by (simp add: gravityBody_far [OF assms])

declare gravityLoop.simps(2) [simp del]

lemma gravityLoop_total: "\<exists>g. gravityLoop pos bodies acc = Some g"
proof (induction bodies arbitrary: acc)
  case Nil
  show ?case by simp
next
  case (Cons b rest)
  show ?case
  proof (cases "distanceTo pos b < 1 / 10 ^ 10")
    case True
    show ?thesis unfolding gravityLoop_near [OF True] by (rule Cons.IH)
  next
    case False
    show ?thesis unfolding gravityLoop_far [OF False] by (rule Cons.IH)
  qed
qed

lemma gravityLoop_append:
  "gravityLoop pos (bs @ cs) acc = (gravityLoop pos bs acc \<bind> gravityLoop pos cs)"
proof (induction bs arbitrary: acc)
  case Nil
  show ?case by simp
next
  case (Cons b bs)
  show ?case
  proof (cases "distanceTo pos b < 1 / 10 ^ 10")
    case True
    show ?thesis unfolding append_Cons gravityLoop_near [OF True] by (rule Cons.IH)
  next
    case False
    show ?thesis unfolding append_Cons gravityLoop_far [OF False] by (rule Cons.IH)
  qed
qed


lemma computeGravity_total: "\<exists>g. computeGravity sc bodies = Some g"
  unfolding computeGravity_def by (rule gravityLoop_total)


lemma applyThrust_position: "positionAU (applyThrust three sc dtSim) = positionAU sc"
  by (simp add: applyThrust_def Let_def)

lemma applyThrust_velocity:
  "velocityAU (applyThrust three (sc\<lparr>mesh_quaternion := rotateMesh three sc dtReal\<rparr>) dtSim) =
     \<lparr>vec_x = vec_x (velocityAU sc) + vec_x (thrustAcceleration three sc dtReal) * dtSim,
      vec_y = vec_y (velocityAU sc) + vec_y (thrustAcceleration three sc dtReal) * dtSim,
      vec_z = vec_z (velocityAU sc) + vec_z (thrustAcceleration three sc dtReal) * dtSim\<rparr>"
  by (simp add: applyThrust_def thrustAcceleration_def Let_def)

text \<open>The guard over the numbers with a range.\<close>

lemma js_val_small: "\<bar>v\<bar> \<le> 1 \<Longrightarrow> js_val v = Fin v"
proof -
  assume "\<bar>v\<bar> \<le> 1"
  moreover have "(1 :: real) < 2 ^ 1024"
    by simp
  ultimately have "v < 2 ^ 1024" "- (2 ^ 1024) < v"
    by linarith+
  then show ?thesis
    by (simp add: js_val_def)
qed

lemma gravityBody_ranged_near:
  assumes "distanceTo pos b < 1 / 10 ^ 10"
  shows "gravityBody_ranged pos b acc = acc"
proof -
  define dx where "dx = vec_x (body_positionAU b) - vec_x pos"
  define dy where "dy = vec_y (body_positionAU b) - vec_y pos"
  define dz where "dz = vec_z (body_positionAU b) - vec_z pos"
  have r: "sqrt (dx * dx + dy * dy + dz * dz) < 1 / 10 ^ 10"
    using assms unfolding dx_def dy_def dz_def distanceTo_unfold .
  moreover have "(1 / 10 ^ 10 :: real) < 1"
    by simp
  ultimately have "sqrt (dx * dx + dy * dy + dz * dz) < 1"
    by (rule less_trans)
  then have sum: "dx * dx + dy * dy + dz * dz < 1"
    by (simp only: real_sqrt_lt_1_iff)
  have nn: "0 \<le> dx * dx" "0 \<le> dy * dy" "0 \<le> dz * dz"
    by simp_all
  have sq: "dx * dx \<le> 1" "dy * dy \<le> 1" "dz * dz \<le> 1" "dx * dx + dy * dy \<le> 1"
    using sum nn by linarith+
  have small: "\<bar>dx\<bar> \<le> 1" "\<bar>dy\<bar> \<le> 1" "\<bar>dz\<bar> \<le> 1"
    using sq(1-3) by (simp_all add: abs_le_square_iff [of _ 1, simplified] power2_eq_square)
  have d: "js_minus (Fin (vec_x (body_positionAU b))) (Fin (vec_x pos)) = Fin dx"
    "js_minus (Fin (vec_y (body_positionAU b))) (Fin (vec_y pos)) = Fin dy"
    "js_minus (Fin (vec_z (body_positionAU b))) (Fin (vec_z pos)) = Fin dz"
    using small by (simp_all add: js_minus_def js_val_small dx_def dy_def dz_def)
  have v: "js_val (dx * dx) = Fin (dx * dx)" "js_val (dy * dy) = Fin (dy * dy)"
    "js_val (dz * dz) = Fin (dz * dz)" "js_val (dx * dx + dy * dy) = Fin (dx * dx + dy * dy)"
    "js_val (dx * dx + dy * dy + dz * dz) = Fin (dx * dx + dy * dy + dz * dz)"
    using sq sum nn by (intro js_val_small; linarith)+
  have r2: "js_plus (js_plus (js_times (Fin dx) (Fin dx)) (js_times (Fin dy) (Fin dy)))
      (js_times (Fin dz) (Fin dz)) = Fin (dx * dx + dy * dy + dz * dz)"
    by (simp add: v)
  have "\<not> dx * dx + dy * dy + dz * dz < 0"
    using nn by linarith
  with r have less: "js_less (js_root (Fin (dx * dx + dy * dy + dz * dz))) (Fin (1 / 10 ^ 10))"
    by simp
  show ?thesis
    unfolding gravityBody_ranged_def Let_def d r2 using less by simp
qed

lemma gravityLoop_ranged_append:
  "gravityLoop_ranged pos (bs @ cs) acc = gravityLoop_ranged pos cs (gravityLoop_ranged pos bs acc)"
  by (induction bs arbitrary: acc) simp_all

lemma computeGravity_ranged_near:
  assumes "distanceTo (positionAU sc) b < 1 / 10 ^ 10"
  shows "computeGravity_ranged sc (bs @ b # cs) = computeGravity_ranged sc (bs @ cs)"
  unfolding computeGravity_ranged_def gravityLoop_ranged_append
  by (simp add: gravityBody_ranged_near [OF assms])

text \<open>
  C1, as stated, fails: finite positions do not make the result finite. The spacecraft
  is at \<open>x = -2 ^ 1023\<close>, on a body that the guard skips, and a second body is at
  \<open>x = 2 ^ 1023\<close>. For the second body the difference \<open>dx\<close> is beyond the range of a
  double, \<open>Infinity\<close>; so are \<open>r2\<close> and \<open>r\<close>, the guard lets the body pass, \<open>aMag\<close> is
  zero, \<open>dx / r\<close> is \<open>NaN\<close>, and the component \<open>ax\<close> of the result is \<open>NaN\<close>.
\<close>

theorem computeGravity_overflow:
  "distanceTo (positionAU farCraft) hostBody < 1 / 10 ^ 10
   \<and> computeGravity_ranged farCraft [hostBody, farBody]
       = \<lparr>jsax = NaN, jsay = Fin 0, jsaz = Fin 0\<rparr>"
  by (simp add: distanceTo_def computeGravity_ranged_def gravityBody_ranged_def farCraft_def
      restCraft_def hostBody_def farBody_def js_val_def js_minus_def js_inf_def Let_def)

text \<open>
  C1, amended. A body closer than 1e-10 AU to the spacecraft contributes exactly zero to
  the acceleration \<open>computeGravity\<close> returns: the result with the body in the list is the
  result without it, in exact arithmetic and over the numbers with a range alike. And no
  division by zero is evaluated, whatever the bodies and wherever they are: in exact
  arithmetic the result is always defined.
\<close>

theorem computeGravity_singularity_guard:
  assumes "distanceTo (positionAU sc) b < 1 / 10 ^ 10"
  shows "(\<exists>g. computeGravity sc (bs @ b # cs) = Some g \<and> computeGravity sc (bs @ cs) = Some g)
     \<and> computeGravity_ranged sc (bs @ b # cs) = computeGravity_ranged sc (bs @ cs)
     \<and> (\<exists>g. computeGravity sc bodies = Some g)"
proof -
  obtain g where g: "gravityLoop (positionAU sc) (bs @ b # cs) \<lparr>ax = 0, ay = 0, az = 0\<rparr> = Some g"
    using gravityLoop_total by blast
  have "gravityLoop (positionAU sc) (bs @ b # cs) acc = gravityLoop (positionAU sc) (bs @ cs) acc"
    for acc
    unfolding gravityLoop_append gravityLoop_near [OF assms] ..
  with g have "\<exists>g. computeGravity sc (bs @ b # cs) = Some g \<and> computeGravity sc (bs @ cs) = Some g"
    by (simp add: computeGravity_def)
  then show ?thesis
    using computeGravity_ranged_near [OF assms] computeGravity_total by simp
qed


text \<open>Values at the concrete objects.\<close>

lemma unitBody_far: "distanceTo (positionAU restCraft) unitBody = 2"
  by (simp add: distanceTo_def restCraft_def unitBody_def)

lemma unitBody_pull: "pull (positionAU restCraft) unitBody = \<lparr>ax = 1 / 4, ay = 0, az = 0\<rparr>"
  by (simp add: pull_def restCraft_def unitBody_def Let_def)

lemma sunBody_near: "distanceTo (positionAU restCraft) sunBody = 0"
  by (simp add: distanceTo_def restCraft_def sunBody_def)

lemma unitBody_ranged:
  "gravityBody_ranged (positionAU restCraft) unitBody \<lparr>jsax = Fin v, jsay = Fin 0, jsaz = Fin 0\<rparr>
     = \<lparr>jsax = js_val (v + 1 / 4), jsay = Fin 0, jsaz = Fin 0\<rparr>"
  by (simp add: gravityBody_ranged_def restCraft_def unitBody_def js_val_def js_minus_def Let_def)

text \<open>The guard at work: the spacecraft sits on the Sun, between two other bodies.\<close>

theorem computeGravity_singularity_guard_witness:
  "distanceTo (positionAU restCraft) sunBody < 1 / 10 ^ 10
   \<and> computeGravity restCraft ([unitBody] @ sunBody # [unitBody]) = Some \<lparr>ax = 1 / 2, ay = 0, az = 0\<rparr>
   \<and> computeGravity restCraft ([unitBody] @ [unitBody]) = Some \<lparr>ax = 1 / 2, ay = 0, az = 0\<rparr>
   \<and> computeGravity_ranged restCraft ([unitBody] @ sunBody # [unitBody])
       = \<lparr>jsax = Fin (1 / 2), jsay = Fin 0, jsaz = Fin 0\<rparr>"
proof -
  have near: "distanceTo (positionAU restCraft) sunBody < 1 / 10 ^ 10"
    by (simp add: sunBody_near)
  have far: "\<not> distanceTo (positionAU restCraft) unitBody < 1 / 10 ^ 10"
    by (simp add: unitBody_far)
  have exact: "computeGravity restCraft ([unitBody] @ [unitBody]) = Some \<lparr>ax = 1 / 2, ay = 0, az = 0\<rparr>"
    by (simp add: computeGravity_def gravityLoop_far [OF far] unitBody_pull)
  have ranged: "computeGravity_ranged restCraft ([unitBody] @ [unitBody])
      = \<lparr>jsax = Fin (1 / 2), jsay = Fin 0, jsaz = Fin 0\<rparr>"
    by (simp add: computeGravity_ranged_def unitBody_ranged js_val_def)
  from computeGravity_singularity_guard [OF near, of "[unitBody]" "[unitBody]"] near exact ranged
  show ?thesis by auto
qed


section \<open>The integrator\<close>

lemma updateSpacecraft_step:
  assumes "computeGravity sc bodies = Some g"
  shows "\<exists>sc'. updateSpacecraft three sc bodies dtSim dtReal = Some sc'
     \<and> velocityAU sc' =
         \<lparr>vec_x = vec_x (velocityAU sc) + vec_x (thrustAcceleration three sc dtReal) * dtSim
                   + ax g * dtSim,
          vec_y = vec_y (velocityAU sc) + vec_y (thrustAcceleration three sc dtReal) * dtSim
                   + ay g * dtSim,
          vec_z = vec_z (velocityAU sc) + vec_z (thrustAcceleration three sc dtReal) * dtSim
                   + az g * dtSim\<rparr>
     \<and> positionAU sc' =
         \<lparr>vec_x = vec_x (positionAU sc) + vec_x (velocityAU sc') * dtSim,
          vec_y = vec_y (positionAU sc) + vec_y (velocityAU sc') * dtSim,
          vec_z = vec_z (positionAU sc) + vec_z (velocityAU sc') * dtSim\<rparr>"
proof -
  define sc1 where "sc1 = sc\<lparr>mesh_quaternion := rotateMesh three sc dtReal\<rparr>"
  define sc2 where "sc2 = applyThrust three sc1 dtSim"
  have pos2: "positionAU sc2 = positionAU sc"
    by (simp add: sc2_def sc1_def applyThrust_position)
  then have g2: "computeGravity sc2 bodies = Some g"
    using assms by (simp add: computeGravity_def)
  have vel2: "velocityAU sc2 =
     \<lparr>vec_x = vec_x (velocityAU sc) + vec_x (thrustAcceleration three sc dtReal) * dtSim,
      vec_y = vec_y (velocityAU sc) + vec_y (thrustAcceleration three sc dtReal) * dtSim,
      vec_z = vec_z (velocityAU sc) + vec_z (thrustAcceleration three sc dtReal) * dtSim\<rparr>"
    unfolding sc2_def sc1_def by (rule applyThrust_velocity)
  define sc3 where "sc3 = sc2\<lparr>velocityAU :=
         \<lparr>vec_x = vec_x (velocityAU sc2) + ax g * dtSim,
          vec_y = vec_y (velocityAU sc2) + ay g * dtSim,
          vec_z = vec_z (velocityAU sc2) + az g * dtSim\<rparr>\<rparr>"
  have upd: "updateSpacecraft three sc bodies dtSim dtReal = Some (integratePosition sc3 dtSim)"
    using g2 by (simp add: updateSpacecraft_def applyGravity_def Let_def sc1_def sc2_def sc3_def)
  have "velocityAU (integratePosition sc3 dtSim) = velocityAU sc3"
    by (simp add: integratePosition_def Let_def)
  moreover have "positionAU (integratePosition sc3 dtSim) =
      \<lparr>vec_x = vec_x (positionAU sc3) + vec_x (velocityAU sc3) * dtSim,
       vec_y = vec_y (positionAU sc3) + vec_y (velocityAU sc3) * dtSim,
       vec_z = vec_z (positionAU sc3) + vec_z (velocityAU sc3) * dtSim\<rparr>"
    by (simp add: integratePosition_def Let_def)
  moreover have "positionAU sc3 = positionAU sc"
    by (simp add: sc3_def pos2)
  moreover have "velocityAU sc3 = \<lparr>vec_x = vec_x (velocityAU sc2) + ax g * dtSim,
          vec_y = vec_y (velocityAU sc2) + ay g * dtSim,
          vec_z = vec_z (velocityAU sc2) + az g * dtSim\<rparr>"
    by (simp add: sc3_def)
  ultimately show ?thesis
    using upd vel2 by simp
qed

text \<open>
  C2. One step of \<open>updateSpacecraft\<close> never fails, and it updates the velocity first, by
  the thrust acceleration times \<open>dtSim\<close> and then by the gravitational acceleration at the
  position before the step times \<open>dtSim\<close>, and then moves the position by the new velocity
  times \<open>dtSim\<close>.
\<close>

theorem updateSpacecraft_order:
  "\<exists>g sc'. computeGravity sc bodies = Some g
     \<and> updateSpacecraft three sc bodies dtSim dtReal = Some sc'
     \<and> vec_x (velocityAU sc') =
         vec_x (velocityAU sc) + vec_x (thrustAcceleration three sc dtReal) * dtSim + ax g * dtSim
     \<and> vec_y (velocityAU sc') =
         vec_y (velocityAU sc) + vec_y (thrustAcceleration three sc dtReal) * dtSim + ay g * dtSim
     \<and> vec_z (velocityAU sc') =
         vec_z (velocityAU sc) + vec_z (thrustAcceleration three sc dtReal) * dtSim + az g * dtSim
     \<and> vec_x (positionAU sc') = vec_x (positionAU sc)
         + (vec_x (velocityAU sc) + vec_x (thrustAcceleration three sc dtReal) * dtSim
            + ax g * dtSim) * dtSim
     \<and> vec_y (positionAU sc') = vec_y (positionAU sc)
         + (vec_y (velocityAU sc) + vec_y (thrustAcceleration three sc dtReal) * dtSim
            + ay g * dtSim) * dtSim
     \<and> vec_z (positionAU sc') = vec_z (positionAU sc)
         + (vec_z (velocityAU sc) + vec_z (thrustAcceleration three sc dtReal) * dtSim
            + az g * dtSim) * dtSim"
proof -
  obtain g where g: "computeGravity sc bodies = Some g"
    using computeGravity_total by blast
  from updateSpacecraft_step [OF g, of three dtSim dtReal] obtain sc' where
    "updateSpacecraft three sc bodies dtSim dtReal = Some sc'"
    "velocityAU sc' =
         \<lparr>vec_x = vec_x (velocityAU sc) + vec_x (thrustAcceleration three sc dtReal) * dtSim
                   + ax g * dtSim,
          vec_y = vec_y (velocityAU sc) + vec_y (thrustAcceleration three sc dtReal) * dtSim
                   + ay g * dtSim,
          vec_z = vec_z (velocityAU sc) + vec_z (thrustAcceleration three sc dtReal) * dtSim
                   + az g * dtSim\<rparr>"
    "positionAU sc' =
         \<lparr>vec_x = vec_x (positionAU sc) + vec_x (velocityAU sc') * dtSim,
          vec_y = vec_y (positionAU sc) + vec_y (velocityAU sc') * dtSim,
          vec_z = vec_z (positionAU sc) + vec_z (velocityAU sc') * dtSim\<rparr>"
    by blast
  with g show ?thesis by simp
qed



section \<open>The Kepler solver\<close>

lemma js_rem_two_pi:
  "js_rem M (2 * pi) = 2 * pi * (M / (2 * pi) - of_int (js_trunc (M / (2 * pi))))"
  by (simp add: js_rem_def right_diff_distrib)

lemma normalizeM_floor: "normalizeM M = M - 2 * pi * of_int \<lfloor>M / (2 * pi)\<rfloor>"
proof -
  define q where "q = M / (2 * pi)"
  have M: "M = 2 * pi * q" by (simp add: q_def)
  have rem: "js_rem M (2 * pi) = 2 * pi * (q - of_int (js_trunc q))"
    unfolding q_def by (rule js_rem_two_pi)
  have goal: "M - 2 * pi * of_int \<lfloor>q\<rfloor> = 2 * pi * (q - of_int \<lfloor>q\<rfloor>)"
    by (simp add: M right_diff_distrib)
  show ?thesis
  proof (cases "0 \<le> q")
    case True
    then have "js_trunc q = \<lfloor>q\<rfloor>" by (simp add: js_trunc_def)
    moreover have "0 \<le> q - of_int \<lfloor>q\<rfloor>" by linarith
    then have "\<not> 2 * pi * (q - of_int \<lfloor>q\<rfloor>) < 0"
      by (simp add: not_less)
    ultimately show ?thesis
      unfolding normalizeM_def Let_def rem q_def [symmetric] goal by simp
  next
    case False
    then have t: "js_trunc q = \<lceil>q\<rceil>" by (simp add: js_trunc_def)
    show ?thesis
    proof (cases "q \<in> \<int>")
      case True
      then obtain n where n: "q = of_int n" by (auto simp: Ints_def)
      have "2 * pi * (q - of_int \<lceil>q\<rceil>) = 0" "2 * pi * (q - of_int \<lfloor>q\<rfloor>) = 0"
        by (simp_all add: n)
      then show ?thesis
        unfolding normalizeM_def Let_def rem q_def [symmetric] goal t by simp
    next
      case False
      then have ne: "q \<noteq> of_int \<lfloor>q\<rfloor>"
        by (metis Ints_of_int)
      then have c: "\<lceil>q\<rceil> = \<lfloor>q\<rfloor> + 1"
        by (simp add: ceiling_altdef)
      have "q - of_int \<lceil>q\<rceil> < 0"
        unfolding c using ne by linarith
      then have neg: "2 * pi * (q - of_int \<lceil>q\<rceil>) < 0"
        by (simp add: mult_pos_neg)
      have "2 * pi * (q - of_int \<lceil>q\<rceil>) + 2 * pi = 2 * pi * (q - of_int \<lfloor>q\<rfloor>)"
        unfolding c by (simp add: algebra_simps)
      with neg show ?thesis
        unfolding normalizeM_def Let_def rem q_def [symmetric] goal t by simp
    qed
  qed
qed

lemma normalizeM_periodic: "normalizeM (M + 2 * pi * of_int k) = normalizeM M"
proof -
  have "(M + 2 * pi * of_int k) / (2 * pi) = M / (2 * pi) + of_int k"
    by (simp add: add_divide_distrib)
  then have "\<lfloor>(M + 2 * pi * of_int k) / (2 * pi)\<rfloor> = \<lfloor>M / (2 * pi)\<rfloor> + k"
    by simp
  then show ?thesis
    unfolding normalizeM_floor by (simp add: algebra_simps)
qed

lemma normalizeM_range: "0 \<le> normalizeM M \<and> normalizeM M < 2 * pi"
proof -
  define q where "q = M / (2 * pi)"
  have "normalizeM M = 2 * pi * (q - of_int \<lfloor>q\<rfloor>)"
    unfolding normalizeM_floor q_def by (simp add: right_diff_distrib)
  moreover have "0 \<le> q - of_int \<lfloor>q\<rfloor>" "q - of_int \<lfloor>q\<rfloor> < 1"
    by linarith+
  moreover have "0 < 2 * pi" by simp
  ultimately show ?thesis
    by (metis mult.right_neutral mult_less_cancel_left_pos mult_nonneg_nonneg less_imp_le)
qed

text \<open>With eccentricity 0 the first round of the loop ends it.\<close>

lemma newtonLoop_circular:
  "0 < tolerance \<Longrightarrow> newtonLoop (Suc n) M 0 tolerance M = Some M"
  by (simp add: newtonLoop.simps jsdiv_def)

text \<open>
  With the exact \<open>\<pi>\<close> for the constant, the solver has the period \<open>2\<pi>\<close>: \<open>M\<close> and
  \<open>M + 2\<pi>k\<close> are brought to the same number of \<open>[0, 2\<pi>)\<close>.
\<close>

lemma solveKepler_periodic:
  "solveKepler (M + 2 * pi * of_int k) e tolerance = solveKepler M e tolerance"
  unfolding solveKepler_def normalizeM_periodic ..


section \<open>Convergence of the Newton iteration\<close>

subsection \<open>Bounds on sine, cosine and \<open>\<pi>\<close>\<close>

lemma cos_coeff_values:
  "cos_coeff 0 = 1" "cos_coeff 1 = 0" "cos_coeff 2 = - 1 / 2" "cos_coeff 3 = 0"
  "cos_coeff 4 = 1 / 24" "cos_coeff 5 = 0" "cos_coeff 6 = - 1 / 720" "cos_coeff 7 = 0"
  "cos_coeff 8 = 1 / 40320" "cos_coeff 9 = 0" "cos_coeff 10 = - 1 / 3628800" "cos_coeff 11 = 0"
  by (simp_all add: cos_coeff_def fact_numeral)







lemma cos_taylor_abs:
  fixes x :: real
  shows "\<bar>cos x - (\<Sum>m<n. cos_coeff m * x ^ m)\<bar> \<le> \<bar>x\<bar> ^ n / fact n"
proof -
  obtain t where "cos x = (\<Sum>m<n. cos_coeff m * x ^ m) + (cos (t + 1/2 * real n * pi) / fact n) * x ^ n"
    using Maclaurin_cos_expansion [of x n] by blast
  then have "\<bar>cos x - (\<Sum>m<n. cos_coeff m * x ^ m)\<bar> = \<bar>cos (t + 1/2 * real n * pi)\<bar> * \<bar>x\<bar> ^ n / fact n"
    by (simp add: abs_mult power_abs)
  also have "\<dots> \<le> 1 * \<bar>x\<bar> ^ n / fact n"
    by (intro divide_right_mono mult_right_mono) simp_all
  finally show ?thesis by simp
qed





subsection \<open>Convexity of Kepler's function on \<open>[0, \<pi>]\<close>\<close>






subsection \<open>One round of the loop\<close>



declare newtonLoop.simps(2) [simp del]











subsection \<open>The first round from the left of the root\<close>














subsection \<open>The solver on \<open>[0, 2\<pi>)\<close>\<close>











section \<open>The constant \<open>Math.PI\<close>\<close>

text \<open>
  \<open>Math.PI\<close> is less than \<open>\<pi>\<close>, by less than \<open>2 ^ -48\<close>: the cosine is positive at the
  half of \<open>Math.PI\<close> and negative one unit in the last place above. Both signs are read
  off the Maclaurin polynomial of degree 22, evaluated in Horner form with bounds of 24
  decimal places.
\<close>

lemma cos_coeff_values_more:
  "cos_coeff 12 = 1 / 479001600" "cos_coeff 13 = 0" "cos_coeff 14 = - 1 / 87178291200"
  "cos_coeff 15 = 0" "cos_coeff 16 = 1 / 20922789888000" "cos_coeff 17 = 0"
  "cos_coeff 18 = - 1 / 6402373705728000" "cos_coeff 19 = 0"
  "cos_coeff 20 = 1 / 2432902008176640000" "cos_coeff 21 = 0"
  "cos_coeff 22 = - 1 / 1124000727777607680000" "cos_coeff 23 = 0"
  by (simp_all add: cos_coeff_def fact_numeral)

lemma sum_upto_24:
  "(\<Sum>m<24. (g :: nat \<Rightarrow> real) m) =
     g 0 + g 1 + g 2 + g 3 + g 4 + g 5 + g 6 + g 7 + g 8 + g 9 + g 10 + g 11 + g 12 + g 13 +
     g 14 + g 15 + g 16 + g 17 + g 18 + g 19 + g 20 + g 21 + g 22 + (g 23 :: real)"
  by (simp add: eval_nat_numeral)

lemma cos_horner:
  fixes x u :: real
  assumes "u = x * x"
  shows "(\<Sum>m<24. cos_coeff m * x ^ m) =
    1 - u / 2 * (1 - u / 12 * (1 - u / 30 * (1 - u / 56 * (1 - u / 90 * (1 - u / 132 *
      (1 - u / 182 * (1 - u / 240 * (1 - u / 306 * (1 - u / 380 * (1 - u / 462 * 1))))))))))"
  unfolding sum_upto_24 cos_coeff_values cos_coeff_values_more assms
  by (simp add: eval_nat_numeral algebra_simps)

lemma horner_step:
  fixes t u c lo hi L U :: real
  assumes "lo \<le> t" "t \<le> hi" "0 \<le> u" "0 < c" "L \<le> 1 - u / c * hi"
    "1 - u / c * lo \<le> U"
  shows "L \<le> 1 - u / c * t \<and> 1 - u / c * t \<le> U"
proof -
  have nn: "0 \<le> u / c"
    using assms(3,4) by simp
  have "u / c * lo \<le> u / c * t"
    by (rule mult_left_mono [OF assms(1) nn])
  moreover have "u / c * t \<le> u / c * hi"
    by (rule mult_left_mono [OF assms(2) nn])
  ultimately show ?thesis
    using assms(5,6) by linarith
qed

lemma cos_below_half_pi: "0 < cos (884279719003555 / 2 ^ 49 :: real)"
proof -
  define x :: real where "x = 884279719003555 / 2 ^ 49"
  define u :: real where "u = x * x"
  have u: "u = 781950621441006189802102638025 / 2 ^ 98"
    by (simp add: u_def x_def)
  have u0: "0 \<le> u"
    by (simp add: u)
  define t10 where "t10 = 1 - u / 462 * 1"
  have b10: "994659304977765498999260 / 10 ^ 24 \<le> t10 \<and> t10 \<le> 994659304977765498999261 / 10 ^ 24"
    unfolding t10_def
    by (rule horner_step [OF order_refl order_refl u0]) (simp_all add: u)
  define t9 where "t9 = 1 - u / 380 * t10"
  have b9: "993541517201320370926043 / 10 ^ 24 \<le> t9 \<and> t9 \<le> 993541517201320370926044 / 10 ^ 24"
    unfolding t9_def
    by (rule horner_step [OF conjunct1 [OF b10] conjunct2 [OF b10] u0]) (simp_all add: u)
  define t8 where "t8 = 1 - u / 306 * t9"
  have b8: "991988675056507230825869 / 10 ^ 24 \<le> t8 \<and> t8 \<le> 991988675056507230825870 / 10 ^ 24"
    unfolding t8_def
    by (rule horner_step [OF conjunct1 [OF b9] conjunct2 [OF b9] u0]) (simp_all add: u)
  define t7 where "t7 = 1 - u / 240 * t8"
  have b7: "989801525215449474308702 / 10 ^ 24 \<le> t7 \<and> t7 \<le> 989801525215449474308703 / 10 ^ 24"
    unfolding t7_def
    by (rule horner_step [OF conjunct1 [OF b8] conjunct2 [OF b8] u0]) (simp_all add: u)
  define t6 where "t6 = 1 - u / 182 * t7"
  have b6: "986581113338638242938979 / 10 ^ 24 \<le> t6 \<and> t6 \<le> 986581113338638242938980 / 10 ^ 24"
    unfolding t6_def
    by (rule horner_step [OF conjunct1 [OF b7] conjunct2 [OF b7] u0]) (simp_all add: u)
  define t5 where "t5 = 1 - u / 132 * t6"
  have b5: "981558399056366169370509 / 10 ^ 24 \<le> t5 \<and> t5 \<le> 981558399056366169370511 / 10 ^ 24"
    unfolding t5_def
    by (rule horner_step [OF conjunct1 [OF b6] conjunct2 [OF b6] u0]) (simp_all add: u)
  define t4 where "t4 = 1 - u / 90 * t5"
  have b4: "973090019179852956278184 / 10 ^ 24 \<le> t4 \<and> t4 \<le> 973090019179852956278185 / 10 ^ 24"
    unfolding t4_def
    by (rule horner_step [OF conjunct1 [OF b5] conjunct2 [OF b5] u0]) (simp_all add: u)
  define t3 where "t3 = 1 - u / 56 * t4"
  have b3: "957124939571635694735849 / 10 ^ 24 \<le> t3 \<and> t3 \<le> 957124939571635694735850 / 10 ^ 24"
    unfolding t3_def
    by (rule horner_step [OF conjunct1 [OF b4] conjunct2 [OF b4] u0]) (simp_all add: u)
  define t2 where "t2 = 1 - u / 30 * t3"
  have b2: "921279629033428322219095 / 10 ^ 24 \<le> t2 \<and> t2 \<le> 921279629033428322219096 / 10 ^ 24"
    unfolding t2_def
    by (rule horner_step [OF conjunct1 [OF b3] conjunct2 [OF b3] u0]) (simp_all add: u)
  define t1 where "t1 = 1 - u / 12 * t2"
  have b1: "810569469138702185179021 / 10 ^ 24 \<le> t1 \<and> t1 \<le> 810569469138702185179022 / 10 ^ 24"
    unfolding t1_def
    by (rule horner_step [OF conjunct1 [OF b2] conjunct2 [OF b2] u0]) (simp_all add: u)
  define t0 where "t0 = 1 - u / 2 * t1"
  have b0: "61150582 / 10 ^ 24 \<le> t0 \<and> t0 \<le> 61150584 / 10 ^ 24"
    unfolding t0_def
    by (rule horner_step [OF conjunct1 [OF b1] conjunct2 [OF b1] u0]) (simp_all add: u)
  have poly: "(\<Sum>m<24. cos_coeff m * x ^ m) = t0"
    unfolding t0_def t1_def t2_def t3_def t4_def t5_def t6_def t7_def t8_def t9_def t10_def by (rule cos_horner) (rule u_def)
  have "\<bar>x\<bar> ^ 24 \<le> (8 / 5) ^ 24"
    by (rule power_mono) (simp_all add: x_def)
  then have "\<bar>x\<bar> ^ 24 / fact 24 \<le> (8 / 5) ^ 24 / fact 24"
    by (rule divide_right_mono) simp
  also have "\<dots> \<le> 127696 / 10 ^ 24"
    by (simp add: fact_numeral power_divide)
  finally have rest: "\<bar>x\<bar> ^ 24 / fact 24 \<le> 127696 / 10 ^ 24" .
  have "\<bar>cos x - t0\<bar> \<le> \<bar>x\<bar> ^ 24 / fact 24"
    unfolding poly [symmetric] by (rule cos_taylor_abs)
  from this rest have close: "\<bar>cos x - t0\<bar> \<le> 127696 / 10 ^ 24"
    by (rule order_trans)
  have "0 < cos x"
    using conjunct1 [OF b0] abs_le_D2 [OF close] by simp
  then show ?thesis by (simp only: x_def)
qed

lemma cos_above_half_pi: "cos (884279719003556 / 2 ^ 49 :: real) < 0"
proof -
  define x :: real where "x = 884279719003556 / 2 ^ 49"
  define u :: real where "u = x * x"
  have u: "u = 781950621441007958361540645136 / 2 ^ 98"
    by (simp add: u_def x_def)
  have u0: "0 \<le> u"
    by (simp add: u)
  define t10 where "t10 = 1 - u / 462 * 1"
  have b10: "994659304977765486920062 / 10 ^ 24 \<le> t10 \<and> t10 \<le> 994659304977765486920063 / 10 ^ 24"
    unfolding t10_def
    by (rule horner_step [OF order_refl order_refl u0]) (simp_all add: u)
  define t9 where "t9 = 1 - u / 380 * t10"
  have b9: "993541517201320356397145 / 10 ^ 24 \<le> t9 \<and> t9 \<le> 993541517201320356397146 / 10 ^ 24"
    unfolding t9_def
    by (rule horner_step [OF conjunct1 [OF b10] conjunct2 [OF b10] u0]) (simp_all add: u)
  define t8 where "t8 = 1 - u / 306 * t9"
  have b8: "991988675056507212823585 / 10 ^ 24 \<le> t8 \<and> t8 \<le> 991988675056507212823586 / 10 ^ 24"
    unfolding t8_def
    by (rule horner_step [OF conjunct1 [OF b9] conjunct2 [OF b9] u0]) (simp_all add: u)
  define t7 where "t7 = 1 - u / 240 * t8"
  have b7: "989801525215449451427606 / 10 ^ 24 \<le> t7 \<and> t7 \<le> 989801525215449451427607 / 10 ^ 24"
    unfolding t7_def
    by (rule horner_step [OF conjunct1 [OF b8] conjunct2 [OF b8] u0]) (simp_all add: u)
  define t6 where "t6 = 1 - u / 182 * t7"
  have b6: "986581113338638212899313 / 10 ^ 24 \<le> t6 \<and> t6 \<le> 986581113338638212899314 / 10 ^ 24"
    unfolding t6_def
    by (rule horner_step [OF conjunct1 [OF b7] conjunct2 [OF b7] u0]) (simp_all add: u)
  define t5 where "t5 = 1 - u / 132 * t6"
  have b5: "981558399056366128222143 / 10 ^ 24 \<le> t5 \<and> t5 \<le> 981558399056366128222144 / 10 ^ 24"
    unfolding t5_def
    by (rule horner_step [OF conjunct1 [OF b6] conjunct2 [OF b6] u0]) (simp_all add: u)
  define t4 where "t4 = 1 - u / 90 * t5"
  have b4: "973090019179852896543238 / 10 ^ 24 \<le> t4 \<and> t4 \<le> 973090019179852896543239 / 10 ^ 24"
    unfolding t4_def
    by (rule horner_step [OF conjunct1 [OF b5] conjunct2 [OF b5] u0]) (simp_all add: u)
  define t3 where "t3 = 1 - u / 56 * t4"
  have b3: "957124939571635600396100 / 10 ^ 24 \<le> t3 \<and> t3 \<le> 957124939571635600396101 / 10 ^ 24"
    unfolding t3_def
    by (rule horner_step [OF conjunct1 [OF b4] conjunct2 [OF b4] u0]) (simp_all add: u)
  define t2 where "t2 = 1 - u / 30 * t3"
  have b2: "921279629033428151934179 / 10 ^ 24 \<le> t2 \<and> t2 \<le> 921279629033428151934180 / 10 ^ 24"
    unfolding t2_def
    by (rule horner_step [OF conjunct1 [OF b3] conjunct2 [OF b3] u0]) (simp_all add: u)
  define t1 where "t1 = 1 - u / 12 * t2"
  have b1: "810569469138701791752161 / 10 ^ 24 \<le> t1 \<and> t1 \<le> 810569469138701791752162 / 10 ^ 24"
    unfolding t1_def
    by (rule horner_step [OF conjunct1 [OF b2] conjunct2 [OF b2] u0]) (simp_all add: u)
  define t0 where "t0 = 1 - u / 2 * t1"
  have b0: "- (1715206258 / 10 ^ 24) \<le> t0 \<and> t0 \<le> - (1715206256 / 10 ^ 24)"
    unfolding t0_def
    by (rule horner_step [OF conjunct1 [OF b1] conjunct2 [OF b1] u0]) (simp_all add: u)
  have poly: "(\<Sum>m<24. cos_coeff m * x ^ m) = t0"
    unfolding t0_def t1_def t2_def t3_def t4_def t5_def t6_def t7_def t8_def t9_def t10_def by (rule cos_horner) (rule u_def)
  have "\<bar>x\<bar> ^ 24 \<le> (8 / 5) ^ 24"
    by (rule power_mono) (simp_all add: x_def)
  then have "\<bar>x\<bar> ^ 24 / fact 24 \<le> (8 / 5) ^ 24 / fact 24"
    by (rule divide_right_mono) simp
  also have "\<dots> \<le> 127696 / 10 ^ 24"
    by (simp add: fact_numeral power_divide)
  finally have rest: "\<bar>x\<bar> ^ 24 / fact 24 \<le> 127696 / 10 ^ 24" .
  have "\<bar>cos x - t0\<bar> \<le> \<bar>x\<bar> ^ 24 / fact 24"
    unfolding poly [symmetric] by (rule cos_taylor_abs)
  from this rest have close: "\<bar>cos x - t0\<bar> \<le> 127696 / 10 ^ 24"
    by (rule order_trans)
  have "cos x < 0"
    using conjunct2 [OF b0] abs_le_D1 [OF close] by simp
  then show ?thesis by (simp only: x_def)
qed

lemma Math_PI_less_pi: "Math_PI < pi"
proof (rule ccontr)
  assume "\<not> Math_PI < pi"
  then have "pi / 2 \<le> 884279719003555 / 2 ^ 49"
    by (simp add: Math_PI_def)
  moreover have "(884279719003555 / 2 ^ 49 :: real) \<le> 2"
    by simp
  then have "(884279719003555 / 2 ^ 49 :: real) \<le> pi"
    using pi_ge_two by (rule order_trans)
  ultimately have "cos (884279719003555 / 2 ^ 49 :: real) \<le> cos (pi / 2)"
    by (intro cos_monotone_0_pi_le) simp_all
  then show False
    using cos_below_half_pi by simp
qed

lemma pi_less_Math_PI: "pi < Math_PI + 1 / 2 ^ 48"
proof (rule ccontr)
  assume "\<not> pi < Math_PI + 1 / 2 ^ 48"
  then have "884279719003556 / 2 ^ 49 \<le> pi / 2"
    by (simp add: Math_PI_def)
  moreover have "- (pi / 2) \<le> 0" "(0 :: real) \<le> 884279719003556 / 2 ^ 49"
    by simp_all
  then have "- (pi / 2) \<le> 884279719003556 / 2 ^ 49"
    by (rule order_trans)
  ultimately have "0 \<le> cos (884279719003556 / 2 ^ 49 :: real)"
    by (intro cos_ge_zero)
  then show False
    using cos_above_half_pi by simp
qed


lemma turn_gap: "0 < 2 * pi - 2 * Math_PI" "2 * pi - 2 * Math_PI < 1 / 2 ^ 47"
  using Math_PI_less_pi pi_less_Math_PI by simp_all

lemma sin_turn_negative: "sin (2 * Math_PI) < 0"
proof -
  define d where "d = 2 * pi - 2 * Math_PI"
  have "0 < d"
    unfolding d_def by (rule turn_gap)
  moreover have "d < 1 / 2 ^ 47"
    unfolding d_def by (rule turn_gap)
  then have "d < 2"
    by simp
  then have "d < pi"
    using pi_ge_two by (rule less_le_trans)
  ultimately have "0 < sin d"
    by (rule sin_gt_zero)
  moreover have "2 * Math_PI = 2 * pi - d"
    by (simp add: d_def)
  ultimately show ?thesis
    by (simp only: sin_2pi_minus)
qed

section \<open>The period of the solver\<close>











section \<open>The orbit\<close>

lemma rotation_keeps_norm:
  fixes cO sO cI sI cW sW p q :: real
  assumes "cO\<^sup>2 + sO\<^sup>2 = 1" "cI\<^sup>2 + sI\<^sup>2 = 1" "cW\<^sup>2 + sW\<^sup>2 = 1"
  shows "((cO * cW - sO * sW * cI) * p + (- cO * sW - sO * cW * cI) * q)\<^sup>2
       + ((sO * cW + cO * sW * cI) * p + (- sO * sW + cO * cW * cI) * q)\<^sup>2
       + ((sW * sI) * p + (cW * sI) * q)\<^sup>2 = p\<^sup>2 + q\<^sup>2"
  using assms by algebra

lemma norm3_toEcliptic: "norm3 (toEcliptic Omega I omega p q) = sqrt (p\<^sup>2 + q\<^sup>2)"
proof -
  have "(cos Omega)\<^sup>2 + (sin Omega)\<^sup>2 = 1" "(cos I)\<^sup>2 + (sin I)\<^sup>2 = 1"
    "(cos omega)\<^sup>2 + (sin omega)\<^sup>2 = 1"
    by simp_all
  from rotation_keeps_norm [OF this, of p q] show ?thesis
    by (simp add: norm3_def toEcliptic_def Let_def)
qed

lemma solveKepler_circular: "solveKepler M 0 default_tolerance = Some (normalizeM M)"
proof -
  have "newtonLoop (Suc 49) (normalizeM M) 0 default_tolerance (normalizeM M) = Some (normalizeM M)"
    by (rule newtonLoop_circular) (simp add: default_tolerance_def)
  then show ?thesis
    by (simp add: solveKepler_def Let_def)
qed

text \<open>
  C8. When the eccentricity evaluates to 0 at the date, \<open>computePosition\<close> returns a
  position whose distance from the origin is the semi-major axis \<open>a\<close> at that date (a
  length, so not negative): the orbital-plane point is \<open>(a cos E, a sin E)\<close>, and the
  rotation to the ecliptic frame keeps the norm.
\<close>

theorem circular_orbit_radius:
  assumes "el_e els + el_eRate els * centuriesSinceJ2000 (julianDate date) = 0"
    and "0 \<le> el_a els + el_aRate els * centuriesSinceJ2000 (julianDate date)"
  shows "\<exists>p. computePosition els date = Some p
     \<and> norm3 p = el_a els + el_aRate els * centuriesSinceJ2000 (julianDate date)"
proof -
  define a where "a = el_a els + el_aRate els * centuriesSinceJ2000 (julianDate date)"
  have "sqrt ((a * cos E)\<^sup>2 + (a * sin E)\<^sup>2) = \<bar>a\<bar>" for E
  proof -
    have "(a * cos E)\<^sup>2 + (a * sin E)\<^sup>2 = a\<^sup>2 * ((cos E)\<^sup>2 + (sin E)\<^sup>2)"
      by (simp only: power_mult_distrib distrib_left)
    also have "\<dots> = a\<^sup>2"
      by (simp only: sin_cos_squared_add2 mult_1_right)
    finally have "(a * cos E)\<^sup>2 + (a * sin E)\<^sup>2 = a\<^sup>2" .
    then show ?thesis by (simp only: real_sqrt_abs)
  qed
  then have "sqrt ((a * cos E)\<^sup>2 + (a * sin E)\<^sup>2) = a" for E
    using assms(2) by (simp add: a_def)
  then show ?thesis
    using assms(1)
    by (simp add: computePosition_def Let_def solveKepler_circular js_sqrt_def norm3_toEcliptic
        a_def)
qed

text \<open>A circular orbit of radius 2 AU in the ecliptic plane.\<close>

theorem circular_orbit_radius_witness:
  "el_e circularOrbit + el_eRate circularOrbit * centuriesSinceJ2000 (julianDate 0) = 0
   \<and> 0 \<le> el_a circularOrbit + el_aRate circularOrbit * centuriesSinceJ2000 (julianDate 0)
   \<and> (\<exists>p. computePosition circularOrbit 0 = Some p \<and> norm3 p = 2)"
proof -
  have e: "el_e circularOrbit + el_eRate circularOrbit * centuriesSinceJ2000 (julianDate 0) = 0"
    by (simp add: circularOrbit_def)
  have a: "0 \<le> el_a circularOrbit + el_aRate circularOrbit * centuriesSinceJ2000 (julianDate 0)"
    by (simp add: circularOrbit_def)
  from circular_orbit_radius [OF e a] e a show ?thesis
    by (simp add: circularOrbit_def)
qed

declare pathLoop.simps [simp del]

lemma pathLoop_eq:
  assumes "0 < segments" and "e * e \<le> 1"
  shows "i \<le> Suc segments \<Longrightarrow>
    pathLoop a e Omega I omega segments i points =
      Some (points @ map (\<lambda>j. orbitPoint a e Omega I omega (2 * pi * real j / real segments))
                        [i ..< Suc segments])"
proof (induction "Suc segments - i" arbitrary: i points)
  case 0
  then have "i = Suc segments" by simp
  then show ?case
    by (subst pathLoop.simps) simp
next
  case (Suc n)
  then have le: "i \<le> segments" by simp
  have step: "pathLoop a e Omega I omega segments i points =
      pathLoop a e Omega I omega segments (Suc i)
        (points @ [orbitPoint a e Omega I omega (2 * pi * real i / real segments)])"
    using le assms
    by (subst pathLoop.simps) (simp add: jsdiv_def js_sqrt_def Let_def orbitPoint_def)
  have "n = Suc segments - Suc i" "Suc i \<le> Suc segments"
    using Suc.hyps(2) le by simp_all
  from Suc.hyps(1) [OF this] show ?case
    unfolding step using le by (simp add: upt_conv_Cons del: upt_Suc)
qed

lemma orbitPoint_period: "orbitPoint a e Omega I omega (2 * pi) = orbitPoint a e Omega I omega 0"
  by (simp add: orbitPoint_def)

text \<open>
  With the exact \<open>\<pi>\<close> for the constant, the path for \<open>N\<close> segments (\<open>N \<ge> 1\<close>) and an
  eccentricity of the data model has \<open>N + 1\<close> points and is closed: \<open>E = 0\<close> and \<open>E = 2\<pi>\<close>
  give the same orbital-plane point.
\<close>

lemma orbit_path_closed:
  assumes "0 < segments"
    and "\<bar>el_e els + el_eRate els * centuriesSinceJ2000 (julianDate now)\<bar> \<le> 1"
  shows "\<exists>points. computeOrbitPath els segments now = Some points
     \<and> length points = segments + 1
     \<and> hd points = last points"
proof -
  define e where "e = el_e els + el_eRate els * centuriesSinceJ2000 (julianDate now)"
  have "\<bar>e\<bar> * \<bar>e\<bar> \<le> 1 * 1"
    using assms(2) unfolding e_def [symmetric] by (intro mult_mono) simp_all
  then have e: "e * e \<le> 1" by (simp add: abs_mult_self_eq)
  define pt where "pt = (\<lambda>j. orbitPoint (el_a els + el_aRate els * centuriesSinceJ2000 (julianDate now)) e
      ((el_Omega els + el_OmegaRate els * centuriesSinceJ2000 (julianDate now)) * DEG2RAD)
      ((el_I els + el_IRate els * centuriesSinceJ2000 (julianDate now)) * DEG2RAD)
      ((el_wBar els + el_wBarRate els * centuriesSinceJ2000 (julianDate now)) * DEG2RAD
        - (el_Omega els + el_OmegaRate els * centuriesSinceJ2000 (julianDate now)) * DEG2RAD)
      (2 * pi * real j / real segments))"
  have path: "computeOrbitPath els segments now = Some (map pt [0 ..< Suc segments])"
    unfolding computeOrbitPath_def Let_def e_def [symmetric]
    by (simp add: pathLoop_eq [OF assms(1) e] pt_def)
  have "hd (map pt [0 ..< Suc segments]) = pt 0"
    by (simp add: hd_map del: upt_Suc)
  moreover have "last (map pt [0 ..< Suc segments]) = pt segments"
    by simp
  moreover have "pt segments = pt 0"
    using assms(1) by (simp add: pt_def orbitPoint_period)
  ultimately show ?thesis
    using path by simp
qed

text \<open>The path with the constant \<open>Math.PI\<close> as the double it is.\<close>

declare pathLoop_double.simps [simp del]

lemma pathLoop_double_eq:
  assumes "0 < segments" and "e * e \<le> 1"
  shows "i \<le> Suc segments \<Longrightarrow>
    pathLoop_double a e Omega I omega segments i points =
      Some (points @ map (\<lambda>j. orbitPoint a e Omega I omega (2 * Math_PI * real j / real segments))
                        [i ..< Suc segments])"
proof (induction "Suc segments - i" arbitrary: i points)
  case 0
  then have "i = Suc segments" by simp
  then show ?case
    by (subst pathLoop_double.simps) simp
next
  case (Suc n)
  then have le: "i \<le> segments" by simp
  have step: "pathLoop_double a e Omega I omega segments i points =
      pathLoop_double a e Omega I omega segments (Suc i)
        (points @ [orbitPoint a e Omega I omega (2 * Math_PI * real i / real segments)])"
    using le assms
    by (subst pathLoop_double.simps) (simp add: jsdiv_def js_sqrt_def Let_def orbitPoint_def)
  have "n = Suc segments - Suc i" "Suc i \<le> Suc segments"
    using Suc.hyps(2) le by simp_all
  from Suc.hyps(1) [OF this] show ?case
    unfolding step using le by (simp add: upt_conv_Cons del: upt_Suc)
qed

lemma computeOrbitPath_double_eq:
  assumes "0 < segments"
    and "\<bar>el_e els + el_eRate els * centuriesSinceJ2000 (julianDate now)\<bar> \<le> 1"
  shows "computeOrbitPath_double els segments now =
    Some (map (\<lambda>j. orbitPoint (el_a els + el_aRate els * centuriesSinceJ2000 (julianDate now))
        (el_e els + el_eRate els * centuriesSinceJ2000 (julianDate now))
        ((el_Omega els + el_OmegaRate els * centuriesSinceJ2000 (julianDate now)) * DEG2RAD_double)
        ((el_I els + el_IRate els * centuriesSinceJ2000 (julianDate now)) * DEG2RAD_double)
        ((el_wBar els + el_wBarRate els * centuriesSinceJ2000 (julianDate now)) * DEG2RAD_double
          - (el_Omega els + el_OmegaRate els * centuriesSinceJ2000 (julianDate now)) * DEG2RAD_double)
        (2 * Math_PI * real j / real segments)) [0 ..< Suc segments])"
proof -
  define e where "e = el_e els + el_eRate els * centuriesSinceJ2000 (julianDate now)"
  have "\<bar>e\<bar> * \<bar>e\<bar> \<le> 1 * 1"
    using assms(2) unfolding e_def [symmetric] by (intro mult_mono) simp_all
  then have e: "e * e \<le> 1"
    by (simp add: abs_mult_self_eq)
  show ?thesis
    unfolding computeOrbitPath_double_def Let_def e_def [symmetric]
    by (simp add: pathLoop_double_eq [OF assms(1) e])
qed

text \<open>
  With no segments, or with an eccentricity beyond 1 in magnitude, the path is not one of
  points: with no segments the one anomaly is \<open>0 / 0\<close>, and for \<open>|e| > 1\<close> the square root
  is that of a negative number, so that the coordinates are \<open>NaN\<close>.
\<close>

lemma computeOrbitPath_double_no_segments: "computeOrbitPath_double els 0 now = None"
  unfolding computeOrbitPath_double_def Let_def
  by (subst pathLoop_double.simps) (simp add: jsdiv_def)

lemma computeOrbitPath_double_hyperbolic:
  assumes "1 < \<bar>el_e els + el_eRate els * centuriesSinceJ2000 (julianDate now)\<bar>"
  shows "computeOrbitPath_double els segments now = None"
proof -
  define e where "e = el_e els + el_eRate els * centuriesSinceJ2000 (julianDate now)"
  have "1 * 1 < \<bar>e\<bar> * \<bar>e\<bar>"
    using assms unfolding e_def [symmetric] by (intro mult_strict_mono) simp_all
  then have "1 - e * e < 0"
    by (simp add: abs_mult_self_eq)
  then show ?thesis
    unfolding computeOrbitPath_double_def Let_def e_def [symmetric]
    by (subst pathLoop_double.simps) (simp add: jsdiv_def js_sqrt_def)
qed

lemma distance3_toEcliptic:
  "distance3 (toEcliptic Omega I omega p q) (toEcliptic Omega I omega p' q') =
     sqrt ((p - p')\<^sup>2 + (q - q')\<^sup>2)"
proof -
  have "(cos Omega)\<^sup>2 + (sin Omega)\<^sup>2 = 1" "(cos I)\<^sup>2 + (sin I)\<^sup>2 = 1"
    "(cos omega)\<^sup>2 + (sin omega)\<^sup>2 = 1"
    by simp_all
  from rotation_keeps_norm [OF this, of "p - p'" "q - q'"] show ?thesis
    by (simp add: distance3_def toEcliptic_def Let_def algebra_simps)
qed

lemma one_minus_cos_le:
  fixes d :: real
  shows "0 \<le> 1 - cos d" "1 - cos d \<le> d\<^sup>2 / 2"
proof -
  show "0 \<le> 1 - cos d"
    by simp
  have "cos d = 1 - 2 * (sin (d / 2))\<^sup>2"
    using cos_double_sin [of "d / 2"] by simp
  moreover have "\<bar>sin (d / 2)\<bar> \<le> \<bar>d / 2\<bar>"
    by (rule abs_sin_x_le_abs_x)
  then have "(sin (d / 2))\<^sup>2 \<le> (d / 2)\<^sup>2"
    by (simp only: abs_le_square_iff)
  ultimately show "1 - cos d \<le> d\<^sup>2 / 2"
    by (simp add: power_divide)
qed

lemma orbit_gap:
  assumes "e * e \<le> 1"
  shows "distance3 (orbitPoint a e Omega I omega 0) (orbitPoint a e Omega I omega (2 * Math_PI))
     \<le> \<bar>a\<bar> / 10 ^ 14"
proof -
  define d where "d = 2 * pi - 2 * Math_PI"
  have d: "0 < d" "d < 1 / 2 ^ 47"
    unfolding d_def by (rule turn_gap)+
  have turn: "2 * Math_PI = 2 * pi - d"
    by (simp add: d_def)
  define root where "root = sqrt (1 - e * e)"
  have root: "0 \<le> root" "root \<le> 1"
    using assms by (simp_all add: root_def)
  define A where "A = a * (1 - cos d)"
  define B where "B = a * root * sin d"
  have "distance3 (orbitPoint a e Omega I omega 0) (orbitPoint a e Omega I omega (2 * Math_PI))
      = sqrt (A\<^sup>2 + B\<^sup>2)"
    unfolding orbitPoint_def distance3_toEcliptic turn cos_2pi_minus sin_2pi_minus A_def B_def
      root_def
    by (simp add: algebra_simps)
  also have "\<dots> \<le> \<bar>A\<bar> + \<bar>B\<bar>"
    by (rule sqrt_sum_squares_le_sum_abs)
  also have "\<dots> \<le> \<bar>a\<bar> * (d\<^sup>2 / 2) + \<bar>a\<bar> * d"
  proof (rule add_mono)
    have "\<bar>A\<bar> = \<bar>a\<bar> * (1 - cos d)"
      using one_minus_cos_le(1) [of d] by (simp add: A_def abs_mult)
    also have "\<dots> \<le> \<bar>a\<bar> * (d\<^sup>2 / 2)"
      by (intro mult_left_mono one_minus_cos_le) simp
    finally show "\<bar>A\<bar> \<le> \<bar>a\<bar> * (d\<^sup>2 / 2)" .
    have "\<bar>sin d\<bar> \<le> \<bar>d\<bar>"
      by (rule abs_sin_x_le_abs_x)
    then have s: "\<bar>sin d\<bar> \<le> d"
      using d(1) by simp
    have "\<bar>B\<bar> = \<bar>a\<bar> * (root * \<bar>sin d\<bar>)"
      using root(1) by (simp add: B_def abs_mult)
    also have "root * \<bar>sin d\<bar> \<le> 1 * d"
      using root s by (intro mult_mono) simp_all
    finally show "\<bar>B\<bar> \<le> \<bar>a\<bar> * d"
      by (simp add: mult_left_mono)
  qed
  also have "\<dots> = \<bar>a\<bar> * (d\<^sup>2 / 2 + d)"
    by (simp add: algebra_simps)
  also have "\<dots> \<le> \<bar>a\<bar> * (1 / 10 ^ 14)"
  proof (rule mult_left_mono)
    have "d\<^sup>2 \<le> (1 / 2 ^ 47)\<^sup>2"
      using d by (intro power_mono) simp_all
    then have "d\<^sup>2 / 2 + d \<le> (1 / 2 ^ 47)\<^sup>2 / 2 + 1 / 2 ^ 47"
      using d(2) by simp
    also have "\<dots> \<le> 1 / 10 ^ 14"
      by (simp add: power_divide)
    finally show "d\<^sup>2 / 2 + d \<le> 1 / 10 ^ 14" .
  qed simp
  finally show ?thesis
    by simp
qed

text \<open>
  C7, as stated, fails: the last point of the path is the point at \<open>E = 2 * Math.PI\<close>, and
  the sine of that double is not zero. On the circular orbit of radius 2 in the ecliptic
  plane, with the default 128 segments, the path starts at \<open>(2, 0, 0)\<close> and ends at a point
  with \<open>y = 2 sin (2 * Math.PI)\<close>, which is negative (about -4.9e-16).
\<close>

theorem orbit_path_not_closed:
  "\<exists>points. computeOrbitPath_double circularOrbit default_segments 0 = Some points
     \<and> hd points = \<lparr>vec_x = 2, vec_y = 0, vec_z = 0\<rparr>
     \<and> vec_y (last points) = 2 * sin (2 * Math_PI)
     \<and> vec_y (last points) < 0
     \<and> hd points \<noteq> last points"
proof -
  have n: "0 < default_segments"
    by (simp add: default_segments_def)
  have e: "\<bar>el_e circularOrbit + el_eRate circularOrbit * centuriesSinceJ2000 (julianDate 0)\<bar> \<le> 1"
    by (simp add: circularOrbit_def)
  define pt where "pt = (\<lambda>j. orbitPoint 2 0 0 0 0 (2 * Math_PI * real j / real default_segments))"
  have path: "computeOrbitPath_double circularOrbit default_segments 0
      = Some (map pt [0 ..< Suc default_segments])"
    unfolding computeOrbitPath_double_eq [OF n e] pt_def by (simp add: circularOrbit_def)
  have first: "hd (map pt [0 ..< Suc default_segments]) = \<lparr>vec_x = 2, vec_y = 0, vec_z = 0\<rparr>"
    by (simp add: hd_map pt_def orbitPoint_def toEcliptic_def del: upt_Suc)
  have "last (map pt [0 ..< Suc default_segments]) = pt default_segments"
    by simp
  also have "\<dots> = \<lparr>vec_x = 2 * cos (2 * Math_PI), vec_y = 2 * sin (2 * Math_PI), vec_z = 0\<rparr>"
    by (simp add: pt_def orbitPoint_def toEcliptic_def default_segments_def)
  finally have final: "last (map pt [0 ..< Suc default_segments])
      = \<lparr>vec_x = 2 * cos (2 * Math_PI), vec_y = 2 * sin (2 * Math_PI), vec_z = 0\<rparr>" .
  have y: "vec_y (last (map pt [0 ..< Suc default_segments])) = 2 * sin (2 * Math_PI)"
    by (simp only: final) simp
  have neg: "vec_y (last (map pt [0 ..< Suc default_segments])) < 0"
    unfolding y using sin_turn_negative by simp
  have "hd (map pt [0 ..< Suc default_segments]) \<noteq> last (map pt [0 ..< Suc default_segments])"
  proof
    assume "hd (map pt [0 ..< Suc default_segments]) = last (map pt [0 ..< Suc default_segments])"
    then have "vec_y (last (map pt [0 ..< Suc default_segments])) = 0"
      unfolding first by (rule subst) simp
    with neg show False
      by simp
  qed
  with first y neg show ?thesis
    unfolding path by blast
qed

text \<open>
  C7, amended. For \<open>N\<close> segments (\<open>N \<ge> 1\<close>, 128 by default) and an eccentricity with
  \<open>|e| \<le> 1\<close> at the time of the call, the path \<open>computeOrbitPath\<close> returns has \<open>N + 1\<close>
  points, and its first and last points are at most \<open>|a| / 10 ^ 14\<close> apart, \<open>a\<close> being the
  semi-major axis at the time of the call: they are the points at \<open>E = 0\<close> and at
  \<open>E = 2 * Math.PI\<close>, and \<open>2 * Math.PI\<close> is less than \<open>2 ^ -47\<close> short of a full turn.
\<close>

theorem orbit_path_nearly_closed:
  assumes "0 < segments"
    and "\<bar>el_e els + el_eRate els * centuriesSinceJ2000 (julianDate now)\<bar> \<le> 1"
  shows "\<exists>points. computeOrbitPath_double els segments now = Some points
     \<and> length points = segments + 1
     \<and> distance3 (hd points) (last points)
         \<le> \<bar>el_a els + el_aRate els * centuriesSinceJ2000 (julianDate now)\<bar> / 10 ^ 14"
proof -
  define e where "e = el_e els + el_eRate els * centuriesSinceJ2000 (julianDate now)"
  have "\<bar>e\<bar> * \<bar>e\<bar> \<le> 1 * 1"
    using assms(2) unfolding e_def [symmetric] by (intro mult_mono) simp_all
  then have e: "e * e \<le> 1"
    by (simp add: abs_mult_self_eq)
  define pt where "pt = (\<lambda>j. orbitPoint (el_a els + el_aRate els * centuriesSinceJ2000 (julianDate now)) e
      ((el_Omega els + el_OmegaRate els * centuriesSinceJ2000 (julianDate now)) * DEG2RAD_double)
      ((el_I els + el_IRate els * centuriesSinceJ2000 (julianDate now)) * DEG2RAD_double)
      ((el_wBar els + el_wBarRate els * centuriesSinceJ2000 (julianDate now)) * DEG2RAD_double
        - (el_Omega els + el_OmegaRate els * centuriesSinceJ2000 (julianDate now)) * DEG2RAD_double)
      (2 * Math_PI * real j / real segments))"
  have path: "computeOrbitPath_double els segments now = Some (map pt [0 ..< Suc segments])"
    unfolding computeOrbitPath_double_eq [OF assms] pt_def e_def ..
  have "hd (map pt [0 ..< Suc segments]) = pt 0"
    by (simp add: hd_map del: upt_Suc)
  moreover have "last (map pt [0 ..< Suc segments]) = pt segments"
    by simp
  moreover have "distance3 (pt 0) (pt segments)
      \<le> \<bar>el_a els + el_aRate els * centuriesSinceJ2000 (julianDate now)\<bar> / 10 ^ 14"
    using assms(1) orbit_gap [OF e] by (simp add: pt_def)
  ultimately show ?thesis
    using path by simp
qed

text \<open>The default number of segments, on the circular orbit.\<close>

theorem orbit_path_nearly_closed_witness:
  "0 < default_segments
   \<and> \<bar>el_e circularOrbit + el_eRate circularOrbit * centuriesSinceJ2000 (julianDate 0)\<bar> \<le> 1
   \<and> (\<exists>points. computeOrbitPath_double circularOrbit default_segments 0 = Some points
     \<and> length points = default_segments + 1
     \<and> distance3 (hd points) (last points) \<le> 2 / 10 ^ 14)"
proof -
  have n: "0 < default_segments"
    by (simp add: default_segments_def)
  have e: "\<bar>el_e circularOrbit + el_eRate circularOrbit * centuriesSinceJ2000 (julianDate 0)\<bar> \<le> 1"
    by (simp add: circularOrbit_def)
  have a: "\<bar>el_a circularOrbit + el_aRate circularOrbit * centuriesSinceJ2000 (julianDate 0)\<bar> = 2"
    by (simp add: circularOrbit_def)
  from orbit_path_nearly_closed [OF n e] n e show ?thesis
    unfolding a by simp
qed


section \<open>The per-body query\<close>

lemma mset_js_insert: "mset (js_insert cmp v ws) = add_mset v (mset ws)"
  by (induction ws) auto

lemma mset_js_sort: "mset (js_sort cmp vs) = mset vs"
  unfolding js_sort_def by (induction vs) (auto simp: mset_js_insert)

lemma set_js_insert: "set (js_insert cmp v ws) = insert v (set ws)"
  by (induction ws) auto

lemma descending_js_insert:
  "sorted_wrt (\<lambda>a b. gravityMs2 b \<le> gravityMs2 a) ws \<Longrightarrow>
   sorted_wrt (\<lambda>a b. gravityMs2 b \<le> gravityMs2 a)
     (js_insert (\<lambda>a b. gravityMs2 b - gravityMs2 a) v ws)"
proof (induction ws)
  case Nil
  show ?case by simp
next
  case (Cons w ws)
  show ?case
  proof (cases "gravityMs2 w \<le> gravityMs2 v")
    case True
    with Cons.prems show ?thesis by auto
  next
    case False
    with Cons show ?thesis by (auto simp: set_js_insert)
  qed
qed

lemma descending_js_sort:
  "sorted_wrt (\<lambda>a b. gravityMs2 b \<le> gravityMs2 a)
     (js_sort (\<lambda>a b. gravityMs2 b - gravityMs2 a) vs)"
  unfolding js_sort_def by (induction vs) (auto intro: descending_js_insert)

lemma filter_js_insert:
  "filter (\<lambda>en. gravityMs2 en = m) (js_insert (\<lambda>a b. gravityMs2 b - gravityMs2 a) v ws) =
     (if gravityMs2 v = m then v # filter (\<lambda>en. gravityMs2 en = m) ws
      else filter (\<lambda>en. gravityMs2 en = m) ws)"
  by (induction ws) auto

lemma stable_js_sort:
  "filter (\<lambda>en. gravityMs2 en = m) (js_sort (\<lambda>a b. gravityMs2 b - gravityMs2 a) vs) =
     filter (\<lambda>en. gravityMs2 en = m) vs"
  unfolding js_sort_def by (induction vs) (auto simp: filter_js_insert)

lemma perBodyRound_near:
  "distanceTo pos b < 1 / 10 ^ 10 \<Longrightarrow> perBodyRound pos b results = Some results"
  by (simp only: perBodyRound_def Let_def distanceTo_unfold if_True)

lemma perBodyRound_far:
  assumes "\<not> distanceTo pos b < 1 / 10 ^ 10"
  shows "perBodyRound pos b results = Some (results @ [bodyReport pos b])"
proof -
  have "(distanceTo pos b)\<^sup>2 =
       (vec_x (body_positionAU b) - vec_x pos) * (vec_x (body_positionAU b) - vec_x pos)
       + (vec_y (body_positionAU b) - vec_y pos) * (vec_y (body_positionAU b) - vec_y pos)
       + (vec_z (body_positionAU b) - vec_z pos) * (vec_z (body_positionAU b) - vec_z pos)"
    by (simp add: distanceTo_def power2_eq_square)
  then show ?thesis
    using assms far_nonzero [OF assms]
    by (simp add: perBodyRound_def bodyReport_def Let_def distanceTo_unfold jsdiv_def
        AU_TO_KM_def DAY_TO_S_def)
qed

lemma perBodyLoop_eq:
  "perBodyLoop pos bodies results =
     Some (results @ map (bodyReport pos) (filter (passesGuard pos) bodies))"
proof (induction bodies arbitrary: results)
  case Nil
  show ?case by simp
next
  case (Cons b rest)
  show ?case
    by (cases "distanceTo pos b < 1 / 10 ^ 10")
      (simp_all add: perBodyRound_near perBodyRound_far Cons.IH passesGuard_def)
qed

lemma getPerBodyGravity_eq:
  "getPerBodyGravity sc bodies =
     Some (js_sort (\<lambda>a b. gravityMs2 b - gravityMs2 a)
       (map (bodyReport (positionAU sc)) (filter (passesGuard (positionAU sc)) bodies)))"
  by (simp add: getPerBodyGravity_def perBodyLoop_eq)

text \<open>
  C6. The list \<open>getPerBodyGravity\<close> returns is in descending order of \<open>gravityMs2\<close>, and
  for every magnitude the entries of that magnitude stand in the order of their bodies in
  the input.
\<close>

theorem getPerBodyGravity_sorted_stable:
  "\<exists>entries. getPerBodyGravity sc bodies = Some entries
     \<and> sorted_wrt (\<lambda>a b. gravityMs2 a \<ge> gravityMs2 b) entries
     \<and> (\<forall>m. filter (\<lambda>en. gravityMs2 en = m) entries =
             filter (\<lambda>en. gravityMs2 en = m)
               (map (bodyReport (positionAU sc)) (filter (passesGuard (positionAU sc)) bodies)))"
  by (simp add: getPerBodyGravity_eq descending_js_sort stable_js_sort)

text \<open>
  Four bodies around the spacecraft: the Sun under it has no entry, the nearest body comes
  first, and the two bodies of equal pull keep their order.
\<close>

lemma getPerBodyGravity_tie:
  "map_option (map name) (getPerBodyGravity restCraft [unitBody, sunBody, nearBody, twinBody])
     = Some [''Near'', ''Unit'', ''Twin'']"
  by (simp add: getPerBodyGravity_eq passesGuard_def distanceTo_def bodyReport_def js_sort_def
      restCraft_def unitBody_def sunBody_def nearBody_def twinBody_def AU_KM_def)

theorem getPerBodyGravity_sorted_stable_witness:
  "\<exists>entries. getPerBodyGravity restCraft [unitBody, sunBody, nearBody, twinBody] = Some entries
     \<and> sorted_wrt (\<lambda>a b. gravityMs2 a \<ge> gravityMs2 b) entries
     \<and> map name entries = [''Near'', ''Unit'', ''Twin'']"
  using getPerBodyGravity_sorted_stable [of restCraft "[unitBody, sunBody, nearBody, twinBody]"]
    getPerBodyGravity_tie
  by auto

text \<open>
  C9, as stated, fails: a body nearer than 1e-10 AU to the spacecraft gets no entry. With
  the spacecraft on the Sun the list for the Sun alone is empty.
\<close>

theorem getPerBodyGravity_omits_near_body:
  "getPerBodyGravity restCraft [sunBody] = Some []
   \<and> length ([] :: gravity_entry list) \<noteq> length [sunBody]"
  by (simp add: getPerBodyGravity_eq passesGuard_def sunBody_near js_sort_def)

text \<open>
  C9, amended. \<open>getPerBodyGravity\<close> returns one entry per body that is not nearer than
  1e-10 AU to the spacecraft: the entry reports the body's name, its distance in AU and in
  kilometres (times \<open>AU_KM\<close>) and the magnitude of its pull in metres per second squared
  (\<open>bodyReport\<close>).
\<close>

theorem getPerBodyGravity_entries:
  "\<exists>entries. getPerBodyGravity sc bodies = Some entries
     \<and> mset entries =
         mset (map (bodyReport (positionAU sc)) (filter (passesGuard (positionAU sc)) bodies))"
  by (simp add: getPerBodyGravity_eq mset_js_sort)

section \<open>The queries change nothing\<close>

lemma gravityRounds_eq:
  "gravityRounds rounds acc s =
     (gravityLoop (positionAU (the_spacecraft s)) (map (nth (the_bodies s)) rounds) acc, s)"
  by (induction rounds arbitrary: acc) (auto simp: gravityLoop.simps split: option.splits)

lemma perBodyRounds_eq:
  "perBodyRounds rounds results s =
     (perBodyLoop (positionAU (the_spacecraft s)) (map (nth (the_bodies s)) rounds) results, s)"
  by (induction rounds arbitrary: results) (auto split: option.splits)

lemma computeGravity_call_eq:
  "computeGravity_call s = (computeGravity (the_spacecraft s) (the_bodies s), s)"
  by (simp add: computeGravity_call_def gravityRounds_eq computeGravity_def map_nth)

lemma getPerBodyGravity_call_eq:
  "getPerBodyGravity_call s = (getPerBodyGravity (the_spacecraft s) (the_bodies s), s)"
  by (simp add: getPerBodyGravity_call_def perBodyRounds_eq getPerBodyGravity_def map_nth
      perBodyLoop_eq)

text \<open>
  C10. A call of \<open>computeGravity\<close> or of \<open>getPerBodyGravity\<close> leaves the spacecraft and
  the bodies as they were: every field of the spacecraft, \<open>positionAU\<close> and \<open>velocityAU\<close>
  among them, and every body with its \<open>positionAU\<close>. The results of the calls are the
  results the theorems above are about.
\<close>

theorem queries_leave_objects:
  "snd (computeGravity_call s) = s \<and> snd (getPerBodyGravity_call s) = s
   \<and> fst (computeGravity_call s) = computeGravity (the_spacecraft s) (the_bodies s)
   \<and> fst (getPerBodyGravity_call s) = getPerBodyGravity (the_spacecraft s) (the_bodies s)"
  by (simp add: computeGravity_call_eq getPerBodyGravity_call_eq)

end
